theory Spec2Isabelle
  imports Complex_Main "HOL-Library.Sublist" "HOL-Library.Char_ord" "HOL-Library.List_Lexorder"
begin

section \<open>Conventions of the embedding\<close>

text \<open>
  The development embeds \<^verbatim>\<open>disaster_predictor.py\<close>, \<^verbatim>\<open>models.py\<close> and the read
  contract of \<^verbatim>\<open>prediction_storage.py\<close>.

  \<^item> Python floats are exact reals: no rounding, no \<^verbatim>\<open>nan\<close>, no \<^verbatim>\<open>inf\<close>.
  \<^item> Python strings are ASCII \<^typ>\<open>string\<close>s.
  \<^item> An exception is the \<open>Inl\<close> branch of a sum; only the exceptions that escape a
    method are values of its result.
  \<^item> A method's \<^verbatim>\<open>self\<close> is the record \<open>DisasterPredictor\<close>, passed as first argument;
    a method that changes the object returns the new record.
  \<^item> Messages printed on the way (the range warnings, the fallback notice) are left out.
\<close>

datatype error = AttributeError string | ValidationError "string list"

section \<open>String helpers\<close>

text \<open>\<^verbatim>\<open>str.lower\<close> on ASCII text.\<close>

definition lower_char :: "char \<Rightarrow> char" where
  "lower_char c =
     (case map_of (zip ''ABCDEFGHIJKLMNOPQRSTUVWXYZ'' ''abcdefghijklmnopqrstuvwxyz'') c of
        Some d \<Rightarrow> d
      | None \<Rightarrow> c)"

definition lower :: "string \<Rightarrow> string" where
  "lower s = map lower_char s"

text \<open>
  \<^verbatim>\<open>str.strip\<close> without argument removes leading and trailing white space; in ASCII these
  are the codes 9 to 13, 28 to 31 and 32.
\<close>

definition isspace :: "char \<Rightarrow> bool" where
  "isspace c = (c \<in> set [CHR 0x09, CHR 0x0A, CHR 0x0B, CHR 0x0C, CHR 0x0D,
                          CHR 0x1C, CHR 0x1D, CHR 0x1E, CHR 0x1F, CHR '' ''])"

definition strip :: "string \<Rightarrow> string" where
  "strip s = rev (dropWhile isspace (rev (dropWhile isspace s)))"

text \<open>\<^verbatim>\<open>term in text\<close> on strings: \<open>term\<close> occurs as a contiguous block of \<open>text\<close>.\<close>

fun str_contains :: "string \<Rightarrow> string \<Rightarrow> bool" where
  "str_contains t [] = (t = [])"
| "str_contains t (c # cs) = (prefix t (c # cs) \<or> str_contains t cs)"

text \<open>Decimal rendering of integers, as \<^verbatim>\<open>str(int)\<close> and an f-string field do.\<close>

definition digit_char :: "nat \<Rightarrow> char" where
  "digit_char d = ''0123456789'' ! (d mod 10)"

fun show_nat :: "nat \<Rightarrow> string" where
  "show_nat n = (if n < 10 then [digit_char n] else show_nat (n div 10) @ [digit_char (n mod 10)])"

declare show_nat.simps [simp del]

definition show_int :: "int \<Rightarrow> string" where
  "show_int i = (if i < 0 then CHR ''-'' # show_nat (nat (- i)) else show_nat (nat i))"

text \<open>\<^verbatim>\<open>int(x)\<close> on a float truncates towards zero.\<close>

definition py_int :: "real \<Rightarrow> int" where
  "py_int x = (if 0 \<le> x then \<lfloor>x\<rfloor> else \<lceil>x\<rceil>)"

text \<open>
  The format \<^verbatim>\<open>{x:.1f}\<close>: one digit after the point, the exact value rounded to the
  nearest tenth, ties to the even digit.
\<close>

definition round_half_even :: "real \<Rightarrow> int" where
  "round_half_even x =
     (let f = \<lfloor>x\<rfloor>; r = x - of_int f
      in if r < 1 / 2 then f else if 1 / 2 < r then f + 1 else if even f then f else f + 1)"

definition format_1f :: "real \<Rightarrow> string" where
  "format_1f x =
     (let t = nat (round_half_even (\<bar>x\<bar> * 10))
      in (if x < 0 then ''-'' else '''') @ show_nat (t div 10) @ ''.'' @ [digit_char (t mod 10)])"

section \<open>The data model (models.py)\<close>

record WeatherData =
  temperature :: real
  humidity :: real
  precipitation :: real
  wind_speed :: real
  pressure :: real
  snow_depth :: real
  temperature_gradient :: real
  consecutive_dry_days :: int
  soil_saturation :: real
  temperature_change :: real
  snow_fall :: real
  air_quality_index :: int
  seismic_activity :: real
  coastal_proximity :: real
  volcanic_activity :: real
  pressure_change :: real
  cloud_height :: real
  dew_point :: real
  stagnant_water_index :: real
  urban_runoff_index :: real
  temperature_profile :: string

text \<open>\<^verbatim>\<open>WeatherData()\<close>: every field at its declared default.\<close>

definition WeatherData_default :: WeatherData where
  "WeatherData_default =
     \<lparr> temperature = 0, humidity = 0, precipitation = 0, wind_speed = 0, pressure = 1013,
       snow_depth = 0, temperature_gradient = 0, consecutive_dry_days = 0, soil_saturation = 0,
       temperature_change = 0, snow_fall = 0, air_quality_index = 0, seismic_activity = 0,
       coastal_proximity = 9999, volcanic_activity = 0, pressure_change = 0,
       cloud_height = 10000, dew_point = 0, stagnant_water_index = 0, urban_runoff_index = 0,
       temperature_profile = ''normal'' \<rparr>"

record DisasterPrediction =
  disaster_type :: string
  probability :: real
  severity :: string
  description :: string

subsection \<open>Attribute access by name\<close>

text \<open>
  The model class declares exactly the 21 fields above, so an instance has these attributes
  and no other. \<open>getattr_opt\<close> reads a numeric attribute by name; on the names the
  predictor asks about, \<open>None\<close> is Python's \<^verbatim>\<open>hasattr(weather_data, name) == False\<close>.
  The one textual field, \<^verbatim>\<open>temperature_profile\<close>, is read through its selector only; the
  predictor never reads it and never asks for it.
\<close>

definition getattr_opt :: "WeatherData \<Rightarrow> string \<Rightarrow> real option" where
  "getattr_opt wd name =
     map_of
       [(''temperature'', temperature wd),
        (''humidity'', humidity wd),
        (''precipitation'', precipitation wd),
        (''wind_speed'', wind_speed wd),
        (''pressure'', pressure wd),
        (''snow_depth'', snow_depth wd),
        (''temperature_gradient'', temperature_gradient wd),
        (''consecutive_dry_days'', of_int (consecutive_dry_days wd)),
        (''soil_saturation'', soil_saturation wd),
        (''temperature_change'', temperature_change wd),
        (''snow_fall'', snow_fall wd),
        (''air_quality_index'', of_int (air_quality_index wd)),
        (''seismic_activity'', seismic_activity wd),
        (''coastal_proximity'', coastal_proximity wd),
        (''volcanic_activity'', volcanic_activity wd),
        (''pressure_change'', pressure_change wd),
        (''cloud_height'', cloud_height wd),
        (''dew_point'', dew_point wd),
        (''stagnant_water_index'', stagnant_water_index wd),
        (''urban_runoff_index'', urban_runoff_index wd)]
       name"

text \<open>A plain read \<^verbatim>\<open>weather_data.name\<close> raises \<^verbatim>\<open>AttributeError\<close> on an undeclared name.\<close>

definition getattr :: "WeatherData \<Rightarrow> string \<Rightarrow> error + real" where
  "getattr wd name =
     (case getattr_opt wd name of None \<Rightarrow> Inl (AttributeError name) | Some v \<Rightarrow> Inr v)"

text \<open>
  Storing a number under a ranged attribute name and rebuilding the object
  (\<^verbatim>\<open>validated_data[attr] = v\<close> followed by \<^verbatim>\<open>WeatherData(**validated_data)\<close>). The stored
  numbers are the integer bounds of \<open>VALID_RANGES\<close>, which every numeric field accepts.
\<close>

definition setattr :: "WeatherData \<Rightarrow> string \<Rightarrow> real \<Rightarrow> WeatherData" where
  "setattr wd name v =
     (if name = ''temperature'' then wd\<lparr>temperature := v\<rparr>
      else if name = ''humidity'' then wd\<lparr>humidity := v\<rparr>
      else if name = ''precipitation'' then wd\<lparr>precipitation := v\<rparr>
      else if name = ''wind_speed'' then wd\<lparr>wind_speed := v\<rparr>
      else if name = ''pressure'' then wd\<lparr>pressure := v\<rparr>
      else if name = ''air_quality_index'' then wd\<lparr>air_quality_index := \<lfloor>v\<rfloor>\<rparr>
      else if name = ''seismic_activity'' then wd\<lparr>seismic_activity := v\<rparr>
      else wd)"

section \<open>The predictor's tables\<close>

definition ATTRIBUTE_ALIASES :: "(string \<times> string) list" where
  "ATTRIBUTE_ALIASES =
     [(''tempature'', ''temperature''),
      (''temperatue'', ''temperature''),
      (''temprature'', ''temperature''),
      (''humid'', ''humidity''),
      (''humidty'', ''humidity''),
      (''precip'', ''precipitation''),
      (''rainfall'', ''precipitation''),
      (''wind'', ''wind_speed''),
      (''windspeed'', ''wind_speed''),
      (''pressure'', ''pressure''),
      (''temp'', ''temperature''),
      (''rain'', ''precipitation''),
      (''winds'', ''wind_speed''),
      (''soil_moisture'', ''soil_saturation''),
      (''dry_days'', ''consecutive_dry_days''),
      (''hot_days'', ''consecutive_hot_days''),
      (''air_quality'', ''air_quality_index''),
      (''aqi'', ''air_quality_index''),
      (''earthquake'', ''seismic_activity''),
      (''coastal_distance'', ''coastal_proximity''),
      (''volcano'', ''volcanic_activity'')]"

definition LOCATION_ALIASES :: "(string \<times> string list) list" where
  "LOCATION_ALIASES =
     [(''cherrapunji'', [''chirapunji'', ''cheerapunji'', ''chirrapunji'', ''cherapunji'']),
      (''mumbai'', [''bombay'', ''mumbia'', ''mumbye'']),
      (''delhi'', [''new delhi'', ''dilli'', ''dehli'']),
      (''bangalore'', [''bengaluru'', ''banglore'', ''bangalor'']),
      (''chennai'', [''madras'', ''chenai'', ''chinnai'']),
      (''kolkata'', [''calcutta'', ''kolkatta'', ''kolkota'']),
      (''new york'', [''newyork'', ''ny'', ''new york city'', ''nyc'']),
      (''los angeles'', [''la'', ''l.a.'', ''losangeles'']),
      (''san francisco'', [''sf'', ''sanfran'', ''sanfrancisco'']),
      (''new orleans'', [''neworleans'', ''nawlins'']),
      (''london'', [''londra'', ''londen'']),
      (''paris'', [''pari'', ''paree'']),
      (''tokyo'', [''tokio'', ''toyko'']),
      (''beijing'', [''peking'', ''beijing'']),
      (''sydney'', [''sidney''])]"

definition VALID_RANGES :: "(string \<times> real \<times> real) list" where
  "VALID_RANGES =
     [(''temperature'', (-70, 60)),
      (''humidity'', (0, 100)),
      (''precipitation'', (0, 2000)),
      (''wind_speed'', (0, 150)),
      (''pressure'', (870, 1085)),
      (''air_quality_index'', (0, 1000)),
      (''seismic_activity'', (0, 10))]"

section \<open>Range validation\<close>

text \<open>
  One round of the loop of \<^verbatim>\<open>_validate_weather_data\<close>. The value is read from the
  original object \<open>weather_data\<close>, the correction goes into the copy \<open>validated_data\<close>.
  Every ranged attribute is a declared numeric field, so the test
  \<^verbatim>\<open>isinstance(value, (int, float))\<close> succeeds whenever \<^verbatim>\<open>hasattr\<close> does.
\<close>

definition validate_attr :: "WeatherData \<Rightarrow> string \<times> real \<times> real \<Rightarrow> WeatherData \<Rightarrow> WeatherData" where
  "validate_attr weather_data = (\<lambda>(attr, min_val, max_val) validated_data.
     (case getattr_opt weather_data attr of
        None \<Rightarrow> validated_data
      | Some val \<Rightarrow>
          if val < min_val then setattr validated_data attr min_val
          else if val > max_val then setattr validated_data attr max_val
          else validated_data))"

definition validate_weather_data :: "WeatherData \<Rightarrow> WeatherData" where
  "validate_weather_data weather_data = fold (validate_attr weather_data) VALID_RANGES weather_data"

section \<open>Input sanitising\<close>

text \<open>
  A raw observation is a \<open>WeatherData\<close> object or a dictionary. Dictionary values are
  integers, floats or text. Building the object from keyword arguments is the work of the
  model library, outside the repository; it is modelled as follows: a key that is no
  declared field is dropped (the class sets no \<^verbatim>\<open>extra\<close> policy, and the library's
  default ignores extras), a missing field takes its default, a float field takes any
  number, an integer field takes an integer or a float without fractional part, the text
  field takes text, and anything else is a validation error. Text that spells a number is
  represented by the number.
\<close>

datatype pyval = PInt int | PFloat real | PStr string

datatype raw_weather_data = Model WeatherData | Dict "(string \<times> pyval) list"

definition float_field :: "(string \<rightharpoonup> pyval) \<Rightarrow> string \<Rightarrow> real \<Rightarrow> real option" where
  "float_field kwargs name dflt =
     (case kwargs name of
        None \<Rightarrow> Some dflt
      | Some (PInt i) \<Rightarrow> Some (of_int i)
      | Some (PFloat r) \<Rightarrow> Some r
      | Some (PStr s) \<Rightarrow> None)"

definition int_field :: "(string \<rightharpoonup> pyval) \<Rightarrow> string \<Rightarrow> int \<Rightarrow> int option" where
  "int_field kwargs name dflt =
     (case kwargs name of
        None \<Rightarrow> Some dflt
      | Some (PInt i) \<Rightarrow> Some i
      | Some (PFloat r) \<Rightarrow> (if r = of_int \<lfloor>r\<rfloor> then Some \<lfloor>r\<rfloor> else None)
      | Some (PStr s) \<Rightarrow> None)"

definition str_field :: "(string \<rightharpoonup> pyval) \<Rightarrow> string \<Rightarrow> string \<Rightarrow> string option" where
  "str_field kwargs name dflt =
     (case kwargs name of
        None \<Rightarrow> Some dflt
      | Some (PStr s) \<Rightarrow> Some s
      | Some _ \<Rightarrow> None)"

definition float_field_names :: "string list" where
  "float_field_names =
     [''temperature'', ''humidity'', ''precipitation'', ''wind_speed'', ''pressure'',
      ''snow_depth'', ''temperature_gradient'', ''soil_saturation'', ''temperature_change'',
      ''snow_fall'', ''seismic_activity'', ''coastal_proximity'', ''volcanic_activity'',
      ''pressure_change'', ''cloud_height'', ''dew_point'', ''stagnant_water_index'',
      ''urban_runoff_index'']"

definition int_field_names :: "string list" where
  "int_field_names = [''consecutive_dry_days'', ''air_quality_index'']"

text \<open>The fields that fail validation; the exception reports all of them.\<close>

definition invalid_fields :: "(string \<rightharpoonup> pyval) \<Rightarrow> string list" where
  "invalid_fields kwargs =
     filter (\<lambda>n. float_field kwargs n 0 = None) float_field_names
     @ filter (\<lambda>n. int_field kwargs n 0 = None) int_field_names
     @ filter (\<lambda>n. str_field kwargs n [] = None) [''temperature_profile'']"

definition float_or :: "(string \<rightharpoonup> pyval) \<Rightarrow> string \<Rightarrow> real \<Rightarrow> real" where
  "float_or kwargs name dflt = (case float_field kwargs name dflt of Some r \<Rightarrow> r | None \<Rightarrow> dflt)"

definition int_or :: "(string \<rightharpoonup> pyval) \<Rightarrow> string \<Rightarrow> int \<Rightarrow> int" where
  "int_or kwargs name dflt = (case int_field kwargs name dflt of Some i \<Rightarrow> i | None \<Rightarrow> dflt)"

definition str_or :: "(string \<rightharpoonup> pyval) \<Rightarrow> string \<Rightarrow> string \<Rightarrow> string" where
  "str_or kwargs name dflt = (case str_field kwargs name dflt of Some s \<Rightarrow> s | None \<Rightarrow> dflt)"

text \<open>\<^verbatim>\<open>WeatherData(**kwargs)\<close>.\<close>

definition WeatherData_init :: "(string \<rightharpoonup> pyval) \<Rightarrow> error + WeatherData" where
  "WeatherData_init kwargs =
     (if invalid_fields kwargs \<noteq> [] then Inl (ValidationError (invalid_fields kwargs))
      else Inr
       \<lparr> temperature = float_or kwargs ''temperature'' 0,
         humidity = float_or kwargs ''humidity'' 0,
         precipitation = float_or kwargs ''precipitation'' 0,
         wind_speed = float_or kwargs ''wind_speed'' 0,
         pressure = float_or kwargs ''pressure'' 1013,
         snow_depth = float_or kwargs ''snow_depth'' 0,
         temperature_gradient = float_or kwargs ''temperature_gradient'' 0,
         consecutive_dry_days = int_or kwargs ''consecutive_dry_days'' 0,
         soil_saturation = float_or kwargs ''soil_saturation'' 0,
         temperature_change = float_or kwargs ''temperature_change'' 0,
         snow_fall = float_or kwargs ''snow_fall'' 0,
         air_quality_index = int_or kwargs ''air_quality_index'' 0,
         seismic_activity = float_or kwargs ''seismic_activity'' 0,
         coastal_proximity = float_or kwargs ''coastal_proximity'' 9999,
         volcanic_activity = float_or kwargs ''volcanic_activity'' 0,
         pressure_change = float_or kwargs ''pressure_change'' 0,
         cloud_height = float_or kwargs ''cloud_height'' 10000,
         dew_point = float_or kwargs ''dew_point'' 0,
         stagnant_water_index = float_or kwargs ''stagnant_water_index'' 0,
         urban_runoff_index = float_or kwargs ''urban_runoff_index'' 0,
         temperature_profile = str_or kwargs ''temperature_profile'' ''normal'' \<rparr>)"

text \<open>The key loop of \<^verbatim>\<open>_sanitize_input\<close>: lowercase, strip, resolve aliases; a later key
  overwrites an earlier one with the same normalised name.\<close>

definition normalize_key :: "string \<Rightarrow> string" where
  "normalize_key key =
     (let clean_key = strip (lower key)
      in case map_of ATTRIBUTE_ALIASES clean_key of
           Some normalized_key \<Rightarrow> normalized_key
         | None \<Rightarrow> clean_key)"

definition normalize_items :: "(string \<times> pyval) list \<Rightarrow> (string \<rightharpoonup> pyval)" where
  "normalize_items raw_items =
     fold (\<lambda>(key, v) normalized_data. normalized_data(normalize_key key \<mapsto> v)) raw_items Map.empty"

text \<open>The \<^verbatim>\<open>except\<close> branch keeps the five basic attributes that are present.\<close>

definition extract_valid_data :: "(string \<rightharpoonup> pyval) \<Rightarrow> (string \<rightharpoonup> pyval)" where
  "extract_valid_data normalized_data =
     fold (\<lambda>attr valid_data.
             (let normalized_attr =
                    (case map_of ATTRIBUTE_ALIASES attr of Some t \<Rightarrow> t | None \<Rightarrow> attr)
              in case normalized_data normalized_attr of
                   Some v \<Rightarrow> valid_data(attr \<mapsto> v)
                 | None \<Rightarrow> valid_data))
          [''temperature'', ''humidity'', ''precipitation'', ''wind_speed'', ''pressure'']
          Map.empty"

definition sanitize_input :: "raw_weather_data \<Rightarrow> WeatherData" where
  "sanitize_input raw_data =
     (case raw_data of
        Model weather_data \<Rightarrow> validate_weather_data weather_data
      | Dict raw_items \<Rightarrow>
          (let normalized_data = normalize_items raw_items
           in case WeatherData_init normalized_data of
                Inr weather_data \<Rightarrow> validate_weather_data weather_data
              | Inl e \<Rightarrow>
                  (case WeatherData_init (extract_valid_data normalized_data) of
                     Inr weather_data \<Rightarrow> weather_data
                   | Inl e' \<Rightarrow> WeatherData_default)))"

section \<open>The predictor object\<close>

text \<open>
  A stored row as \<^verbatim>\<open>get_recent_predictions\<close> returns it; the learning step reads the
  fields \<^verbatim>\<open>accuracy\<close> (SQL \<^verbatim>\<open>REAL DEFAULT NULL\<close>) and \<^verbatim>\<open>predictions\<close> only. The table is
  the list of its rows, most recent first, so that
  \<^verbatim>\<open>ORDER BY timestamp DESC LIMIT limit\<close> is \<open>take\<close>.
\<close>

record StoredPrediction =
  accuracy :: "real option"
  predictions :: "DisasterPrediction list"

definition get_recent_predictions :: "StoredPrediction list \<Rightarrow> nat \<Rightarrow> StoredPrediction list" where
  "get_recent_predictions rows limit = take limit rows"

record DisasterPredictor =
  storage :: "StoredPrediction list"
  learning_coefficients :: "string \<rightharpoonup> real"

text \<open>The coefficients set by \<^verbatim>\<open>__init__\<close>.\<close>

definition initial_coefficients :: "string \<rightharpoonup> real" where
  "initial_coefficients =
     [''flood'' \<mapsto> 1, ''heat_wave'' \<mapsto> 1, ''storm'' \<mapsto> 1, ''wildfire'' \<mapsto> 1,
      ''tornado'' \<mapsto> 1, ''earthquake'' \<mapsto> 1, ''air_quality'' \<mapsto> 1]"

text \<open>\<^verbatim>\<open>DisasterPredictor()\<close> over a table with the given rows.\<close>

definition DisasterPredictor_init :: "StoredPrediction list \<Rightarrow> DisasterPredictor" where
  "DisasterPredictor_init rows = \<lparr>storage = rows, learning_coefficients = initial_coefficients\<rparr>"

section \<open>Hazard risk functions\<close>

definition get_attribute_safely :: "DisasterPredictor \<Rightarrow> WeatherData \<Rightarrow> string \<Rightarrow> real \<Rightarrow> real" where
  "get_attribute_safely self weather_data attr default_value =
     (case getattr_opt weather_data attr of
        Some v \<Rightarrow> v
      | None \<Rightarrow>
          (case List.map_filter
                  (\<lambda>(alias, target). if target = attr then getattr_opt weather_data alias else None)
                  ATTRIBUTE_ALIASES of
             v # _ \<Rightarrow> v
           | [] \<Rightarrow> default_value))"

text \<open>The flood risk before the final clamp: the summed contributions times the
  coefficient of the family.\<close>

definition flood_risk_unclamped :: "DisasterPredictor \<Rightarrow> WeatherData \<Rightarrow> real" where
  "flood_risk_unclamped self weather_data =
     (let precipitation' = get_attribute_safely self weather_data ''precipitation'' 0;
          soil_saturation' = get_attribute_safely self weather_data ''soil_saturation'' 0;
          river_level_percent = get_attribute_safely self weather_data ''river_level_percent'' 0;
          snow_depth' = get_attribute_safely self weather_data ''snow_depth'' 0;
          temperature' = get_attribute_safely self weather_data ''temperature'' 0;
          upstream_precipitation = get_attribute_safely self weather_data ''upstream_precipitation'' 0;
          base_risk =
            (if precipitation' > 20 then min 0.6 ((precipitation' - 20) * 0.015) else 0)
            + (if soil_saturation' > 60 then min 0.3 ((soil_saturation' - 60) * 0.0075) else 0)
            + (if river_level_percent > 70 then min 0.4 ((river_level_percent - 70) * 0.013) else 0)
            + (if snow_depth' > 10 \<and> temperature' > 5 then min 0.3 (0.1 + (temperature' - 5) * 0.02) else 0)
            + (if upstream_precipitation > 30 then min 0.3 ((upstream_precipitation - 30) * 0.01) else 0)
      in base_risk * (case learning_coefficients self ''flood'' of Some c \<Rightarrow> c | None \<Rightarrow> 1))"

definition calculate_flood_risk :: "DisasterPredictor \<Rightarrow> WeatherData \<Rightarrow> real" where
  "calculate_flood_risk self weather_data = min 0.95 (flood_risk_unclamped self weather_data)"

text \<open>The heat risk before the final clamp (past the early return).\<close>

definition heat_risk_unclamped :: "DisasterPredictor \<Rightarrow> WeatherData \<Rightarrow> real" where
  "heat_risk_unclamped self weather_data =
     min 0.7 ((temperature weather_data - 30) * 0.07)
     + (if humidity weather_data > 40 then min 0.3 ((humidity weather_data - 40) * 0.005) else 0)
     + (case getattr_opt weather_data ''consecutive_hot_days'' of
          Some consecutive_hot_days \<Rightarrow>
            if consecutive_hot_days > 1 then min 0.2 ((consecutive_hot_days - 1) * 0.04) else 0
        | None \<Rightarrow> 0)
     + (case getattr_opt weather_data ''urban_density'' of
          Some urban_density \<Rightarrow>
            if urban_density > 50 then min 0.15 ((urban_density - 50) * 0.003) else 0
        | None \<Rightarrow> 0)"

definition calculate_heat_risk :: "DisasterPredictor \<Rightarrow> WeatherData \<Rightarrow> real" where
  "calculate_heat_risk self weather_data =
     (if temperature weather_data < 30 then 0
      else min 0.95 (heat_risk_unclamped self weather_data))"

definition storm_severity_unclamped :: "DisasterPredictor \<Rightarrow> WeatherData \<Rightarrow> real" where
  "storm_severity_unclamped self weather_data =
     (if wind_speed weather_data > 30 then min 0.4 ((wind_speed weather_data - 30) * 0.01) else 0)
     + (if pressure weather_data < 1005 then min 0.3 ((1005 - pressure weather_data) * 0.02) else 0)
     + (case getattr_opt weather_data ''pressure_change'' of
          Some pressure_change' \<Rightarrow>
            if pressure_change' < -3 then min 0.2 (\<bar>pressure_change' + 3\<bar> * 0.06) else 0
        | None \<Rightarrow> 0)
     + (case getattr_opt weather_data ''precipitation_intensity'' of
          Some precipitation_intensity \<Rightarrow>
            if precipitation_intensity > 10 then min 0.2 ((precipitation_intensity - 10) * 0.02) else 0
        | None \<Rightarrow> 0)
     + (case getattr_opt weather_data ''cape_value'' of
          Some cape_value \<Rightarrow>
            if cape_value > 1000 then min 0.2 ((cape_value - 1000) * 0.0002) else 0
        | None \<Rightarrow> 0)"

definition calculate_storm_severity :: "DisasterPredictor \<Rightarrow> WeatherData \<Rightarrow> real" where
  "calculate_storm_severity self weather_data = min 0.95 (storm_severity_unclamped self weather_data)"

definition tornado_risk_unclamped :: "DisasterPredictor \<Rightarrow> WeatherData \<Rightarrow> real \<Rightarrow> real \<Rightarrow> real \<Rightarrow> real" where
  "tornado_risk_unclamped self weather_data wind_shear cape_value temperature_gradient' =
     (if wind_shear > 20 then min 0.3 ((wind_shear - 20) * 0.015) else 0)
     + (if cape_value > 1500 then min 0.3 ((cape_value - 1500) * 0.0002) else 0)
     + (if temperature_gradient' > 8 then min 0.2 ((temperature_gradient' - 8) * 0.025) else 0)
     + (case getattr_opt weather_data ''helicity'' of
          Some helicity \<Rightarrow> if helicity > 150 then min 0.2 ((helicity - 150) * 0.001) else 0
        | None \<Rightarrow> 0)
     + (case getattr_opt weather_data ''lifted_index'' of
          Some lifted_index \<Rightarrow> if lifted_index < -4 then min 0.2 (\<bar>lifted_index + 4\<bar> * 0.05) else 0
        | None \<Rightarrow> 0)"

definition calculate_tornado_risk :: "DisasterPredictor \<Rightarrow> WeatherData \<Rightarrow> real" where
  "calculate_tornado_risk self weather_data =
     (case (getattr_opt weather_data ''wind_shear'', getattr_opt weather_data ''cape_value'',
            getattr_opt weather_data ''temperature_gradient'') of
        (Some wind_shear, Some cape_value, Some temperature_gradient') \<Rightarrow>
          min 0.95 (tornado_risk_unclamped self weather_data wind_shear cape_value temperature_gradient')
      | _ \<Rightarrow>
          (if wind_speed weather_data > 40
              \<and> (case getattr_opt weather_data ''temperature_gradient'' of
                    Some temperature_gradient' \<Rightarrow> temperature_gradient' > 10
                  | None \<Rightarrow> False)
           then 0.4 + min 0.3 ((wind_speed weather_data - 40) * 0.01)
           else 0))"

definition wildfire_risk_unclamped :: "DisasterPredictor \<Rightarrow> WeatherData \<Rightarrow> real" where
  "wildfire_risk_unclamped self weather_data =
     (if temperature weather_data > 25 then min 0.3 ((temperature weather_data - 25) * 0.02) else 0)
     + (if humidity weather_data < 40 then min 0.3 ((40 - humidity weather_data) * 0.0075) else 0)
     + (if wind_speed weather_data > 15 then min 0.2 ((wind_speed weather_data - 15) * 0.01) else 0)
     + (case getattr_opt weather_data ''consecutive_dry_days'' of
          Some consecutive_dry_days' \<Rightarrow>
            if consecutive_dry_days' > 7 then min 0.2 ((consecutive_dry_days' - 7) * 0.02) else 0
        | None \<Rightarrow> 0)
     + (case getattr_opt weather_data ''vegetation_dryness'' of
          Some vegetation_dryness \<Rightarrow>
            if vegetation_dryness > 60 then min 0.2 ((vegetation_dryness - 60) * 0.005) else 0
        | None \<Rightarrow> 0)
     + (case getattr_opt weather_data ''dry_lightning_probability'' of
          Some dry_lightning_probability \<Rightarrow>
            if dry_lightning_probability > 0.3 then min 0.2 dry_lightning_probability else 0
        | None \<Rightarrow> 0)"

definition calculate_wildfire_risk :: "DisasterPredictor \<Rightarrow> WeatherData \<Rightarrow> real" where
  "calculate_wildfire_risk self weather_data =
     (if humidity weather_data > 60 \<or> precipitation weather_data > 5 then 0
      else min 0.95 (wildfire_risk_unclamped self weather_data))"

section \<open>Prediction\<close>

text \<open>
  \<^verbatim>\<open>predict_disasters\<close> appends to one list, block after block. Each block below is the
  list that block appends. Two blocks read an attribute that the model class does not
  declare without asking \<^verbatim>\<open>hasattr\<close> first; their result is a sum.
\<close>

definition flood_findings :: "DisasterPredictor \<Rightarrow> WeatherData \<Rightarrow> DisasterPrediction list" where
  "flood_findings self weather_data =
     (let flood_risk = calculate_flood_risk self weather_data
      in if flood_risk > 0.8 then
           [\<lparr>disaster_type = ''Severe Flood'', probability = flood_risk, severity = ''Severe'',
             description = ''Multiple high-risk conditions indicate serious flooding potential''\<rparr>]
         else if flood_risk > 0.6 then
           [\<lparr>disaster_type = ''Moderate Flood'', probability = flood_risk, severity = ''Moderate'',
             description = ''Combined conditions suggest moderate flooding risk''\<rparr>]
         else if flood_risk > 0.4 then
           [\<lparr>disaster_type = ''Minor Flood'', probability = flood_risk, severity = ''Low'',
             description = ''Some flood risk factors present but limited severity expected''\<rparr>]
         else [])"

definition flash_flood_findings :: "DisasterPredictor \<Rightarrow> WeatherData \<Rightarrow> error + DisasterPrediction list" where
  "flash_flood_findings self weather_data =
     (if precipitation weather_data > 30 then
        (case getattr weather_data ''precipitation_intensity'' of
           Inl e \<Rightarrow> Inl e
         | Inr precipitation_intensity \<Rightarrow>
             if precipitation_intensity > 15 then
               (let flash_flood_probability = min 0.95 (0.6 + (precipitation weather_data - 30) * 0.02)
                in Inr [\<lparr>disaster_type = ''Flash Flood'', probability = flash_flood_probability,
                         severity = ''Severe'',
                         description = ''High intensity rainfall may cause rapid flooding in vulnerable areas''\<rparr>])
             else Inr [])
      else Inr [])"

definition urban_flooding_findings :: "DisasterPredictor \<Rightarrow> WeatherData \<Rightarrow> DisasterPrediction list" where
  "urban_flooding_findings self weather_data =
     (if precipitation weather_data > 20 then
        (let urban_flood_risk = 0.3 + min 1.0 (urban_runoff_index weather_data / 100) * 0.6
         in if urban_flood_risk > 0.65 then
              [\<lparr>disaster_type = ''Urban Flooding'', probability = urban_flood_risk, severity = ''High'',
                description = ''Rain with high urban runoff potential indicates significant flood risk in city areas''\<rparr>]
            else [])
      else [])"

definition heat_findings :: "DisasterPredictor \<Rightarrow> WeatherData \<Rightarrow> DisasterPrediction list" where
  "heat_findings self weather_data =
     (let heat_risk = calculate_heat_risk self weather_data
      in if heat_risk > 0.85 then
           [\<lparr>disaster_type = ''Extreme Heat Wave'', probability = heat_risk, severity = ''Extreme'',
             description = ''Critical combination of high temperature, humidity and duration poses severe health risks''\<rparr>]
         else if heat_risk > 0.7 then
           [\<lparr>disaster_type = ''Severe Heat Wave'', probability = heat_risk, severity = ''Severe'',
             description = ''Extended high temperature with humidity creates significant health danger''\<rparr>]
         else if heat_risk > 0.5 then
           [\<lparr>disaster_type = ''Heat Wave'', probability = heat_risk, severity = ''Moderate'',
             description = ''Elevated temperatures may cause heat-related health issues''\<rparr>]
         else [])"

definition storm_findings :: "DisasterPredictor \<Rightarrow> WeatherData \<Rightarrow> DisasterPrediction list" where
  "storm_findings self weather_data =
     (let storm_severity = calculate_storm_severity self weather_data
      in if storm_severity > 0.8 then
           [\<lparr>disaster_type = ''Severe Storm System'', probability = 0.85, severity = ''Severe'',
             description = ''Multiple severe storm indicators present including pressure drop, wind and instability''\<rparr>]
         else if storm_severity > 0.6 then
           [\<lparr>disaster_type = ''Moderate Storm'', probability = 0.75, severity = ''Moderate'',
             description = ''Storm conditions developing with potential for significant impact''\<rparr>]
         else [])"

definition hurricane_findings :: "DisasterPredictor \<Rightarrow> WeatherData \<Rightarrow> error + DisasterPrediction list" where
  "hurricane_findings self weather_data =
     (if wind_speed weather_data > 75 \<and> pressure weather_data < 980 then
        (case getattr weather_data ''sea_surface_temp'' of
           Inl e \<Rightarrow> Inl e
         | Inr sea_surface_temp \<Rightarrow>
             if sea_surface_temp > 26 then
               (let cat_level = min 5 (1 + py_int ((119 - pressure weather_data) / 10))
                in Inr [\<lparr>disaster_type = ''Category '' @ show_int cat_level @ '' Hurricane/Cyclone'',
                         probability = 0.9, severity = ''Extreme'',
                         description = ''Category '' @ show_int cat_level
                           @ '' tropical system with damaging winds, storm surge and flooding potential''\<rparr>])
             else Inr [])
      else Inr [])"

definition tornado_findings :: "DisasterPredictor \<Rightarrow> WeatherData \<Rightarrow> DisasterPrediction list" where
  "tornado_findings self weather_data =
     (let tornado_risk = calculate_tornado_risk self weather_data
      in if tornado_risk > 0.7 then
           [\<lparr>disaster_type = ''Tornado Warning'', probability = tornado_risk, severity = ''Severe'',
             description = ''Atmospheric conditions highly favorable for tornado formation''\<rparr>]
         else if tornado_risk > 0.5 then
           [\<lparr>disaster_type = ''Tornado Watch'', probability = tornado_risk, severity = ''High'',
             description = ''Conditions support possible tornado development in the coming hours''\<rparr>]
         else [])"

definition winter_storm_findings :: "DisasterPredictor \<Rightarrow> WeatherData \<Rightarrow> DisasterPrediction list" where
  "winter_storm_findings self weather_data =
     (if temperature weather_data < 2 \<and> precipitation weather_data > 10 then
        (let winter_severity =
               0.5 + (if temperature weather_data < -5 then 0.2 else 0)
                   + (if wind_speed weather_data > 30 then 0.2 else 0)
                   + (if precipitation weather_data > 20 then 0.1 else 0);
             storm_type =
               (if winter_severity > 0.8 \<and> wind_speed weather_data > 35 then ''Blizzard''
                else ''Winter Storm'')
         in [\<lparr>disaster_type = storm_type, probability = winter_severity,
              severity = (if winter_severity > 0.8 then ''Severe'' else ''Moderate''),
              description = ''Significant winter precipitation with freezing temperatures creating hazardous conditions''\<rparr>])
      else [])"

definition tsunami_findings :: "DisasterPredictor \<Rightarrow> WeatherData \<Rightarrow> real \<Rightarrow> DisasterPrediction list" where
  "tsunami_findings self weather_data seismic =
     (if seismic > 6.5
         \<and> (case getattr_opt weather_data ''coastal_proximity'' of
               Some coastal \<Rightarrow> coastal < 100
             | None \<Rightarrow> False)
      then
        (let tsunami_probability = 0.4 + min 0.5 ((seismic - 6.5) * 0.2);
             tsunami_severity = (if seismic < 7.5 then ''Moderate'' else ''Severe'');
             tsunami_probability' =
               (case getattr_opt weather_data ''underwater_quake'' of
                  Some underwater_quake \<Rightarrow>
                    if underwater_quake \<noteq> 0 then tsunami_probability + 0.3 else tsunami_probability
                | None \<Rightarrow> tsunami_probability)
         in [\<lparr>disaster_type = ''Tsunami'', probability = tsunami_probability',
              severity = tsunami_severity,
              description = ''Seismic activity near coast creates tsunami risk, potential wave height: ''
                @ format_1f ((seismic - 5.0) * 0.5) @ ''m''\<rparr>])
      else [])"

definition geological_findings :: "DisasterPredictor \<Rightarrow> WeatherData \<Rightarrow> DisasterPrediction list" where
  "geological_findings self weather_data =
     (case getattr_opt weather_data ''seismic_activity'' of
        None \<Rightarrow> []
      | Some seismic \<Rightarrow>
          if seismic > 5.0 then
            (let quake_severity =
                   (if seismic < 6.0 then ''Minor''
                    else if seismic < 7.0 then ''Moderate''
                    else if seismic < 8.0 then ''Major''
                    else ''Extreme'');
                 earthquake_prob = min 0.95 (0.5 + (seismic - 5.0) * 0.1)
             in \<lparr>disaster_type = quake_severity @ '' Earthquake'', probability = earthquake_prob,
                  severity = quake_severity,
                  description = ''Seismic activity of magnitude '' @ format_1f seismic @ '' detected''\<rparr>
                # tsunami_findings self weather_data seismic)
          else [])"

definition wildfire_findings :: "DisasterPredictor \<Rightarrow> WeatherData \<Rightarrow> DisasterPrediction list" where
  "wildfire_findings self weather_data =
     (let wildfire_risk = calculate_wildfire_risk self weather_data
      in if wildfire_risk > 0.8 then
           [\<lparr>disaster_type = ''Extreme Fire Danger'', probability = wildfire_risk, severity = ''Extreme'',
             description = ''Critical fire weather conditions present extreme wildfire danger''\<rparr>]
         else if wildfire_risk > 0.6 then
           [\<lparr>disaster_type = ''High Fire Danger'', probability = wildfire_risk, severity = ''High'',
             description = ''Weather conditions favorable for rapid fire spread''\<rparr>]
         else if wildfire_risk > 0.4 then
           [\<lparr>disaster_type = ''Moderate Fire Danger'', probability = wildfire_risk, severity = ''Moderate'',
             description = ''Some fire risk conditions present, caution advised''\<rparr>]
         else [])"

definition air_quality_findings :: "DisasterPredictor \<Rightarrow> WeatherData \<Rightarrow> DisasterPrediction list" where
  "air_quality_findings self weather_data =
     (case getattr_opt weather_data ''air_quality_index'' of
        None \<Rightarrow> []
      | Some aqi \<Rightarrow>
          if aqi > 0 then
            (if aqi > 300 then
               [\<lparr>disaster_type = ''Hazardous Air Quality Emergency'', probability = 0.95,
                 severity = ''Extreme'',
                 description = ''Extremely dangerous air quality levels pose immediate health threats to all''\<rparr>]
             else if aqi > 200 then
               [\<lparr>disaster_type = ''Very Unhealthy Air Quality'', probability = 0.9,
                 severity = ''Severe'',
                 description = ''Very poor air quality may cause serious health effects for everyone''\<rparr>]
             else if aqi > 150 then
               [\<lparr>disaster_type = ''Unhealthy Air Quality'', probability = 0.8, severity = ''High'',
                 description = ''Unhealthy air quality affects sensitive groups and may affect general population''\<rparr>]
             else [])
          else [])"

definition no_significant_hazards :: DisasterPrediction where
  "no_significant_hazards =
     \<lparr>disaster_type = ''No Significant Hazards'', probability = 0.8, severity = ''Low'',
      description = ''Current conditions do not indicate any significant disaster risks''\<rparr>"

text \<open>
  The list \<^verbatim>\<open>predictions\<close> as it stands before the default case. The blocks run in the
  order of the source, so the first exception raised is the one that escapes.
\<close>

definition hazard_findings :: "DisasterPredictor \<Rightarrow> WeatherData \<Rightarrow> error + DisasterPrediction list" where
  "hazard_findings self weather_data =
     (case flash_flood_findings self weather_data of
        Inl e \<Rightarrow> Inl e
      | Inr flash_flood \<Rightarrow>
          (case hurricane_findings self weather_data of
             Inl e \<Rightarrow> Inl e
           | Inr hurricane \<Rightarrow>
               Inr (flood_findings self weather_data
                    @ flash_flood
                    @ urban_flooding_findings self weather_data
                    @ heat_findings self weather_data
                    @ storm_findings self weather_data
                    @ hurricane
                    @ tornado_findings self weather_data
                    @ winter_storm_findings self weather_data
                    @ geological_findings self weather_data
                    @ wildfire_findings self weather_data
                    @ air_quality_findings self weather_data)))"

definition predict_disasters :: "DisasterPredictor \<Rightarrow> raw_weather_data \<Rightarrow> error + DisasterPrediction list" where
  "predict_disasters self raw_weather_data =
     (let weather_data = sanitize_input raw_weather_data
      in case hazard_findings self weather_data of
           Inl e \<Rightarrow> Inl e
         | Inr predictions' \<Rightarrow>
             Inr (if predictions' = [] then [no_significant_hazards] else predictions'))"

section \<open>Learning from history\<close>

definition map_to_category :: "string \<Rightarrow> string" where
  "map_to_category disaster_type_in =
     (let dt = lower disaster_type_in
      in if list_ex (\<lambda>t. str_contains t dt) [''flood'', ''rain'', ''water''] then ''flood''
         else if list_ex (\<lambda>t. str_contains t dt) [''heat'', ''hot''] then ''heat_wave''
         else if list_ex (\<lambda>t. str_contains t dt) [''storm'', ''hurricane'', ''cyclone'', ''typhoon'']
           then ''storm''
         else if list_ex (\<lambda>t. str_contains t dt) [''fire'', ''wildfire''] then ''wildfire''
         else if list_ex (\<lambda>t. str_contains t dt) [''tornado''] then ''tornado''
         else if list_ex (\<lambda>t. str_contains t dt) [''earthquake'', ''seismic''] then ''earthquake''
         else if list_ex (\<lambda>t. str_contains t dt) [''air'', ''pollution''] then ''air_quality''
         else ''other'')"

text \<open>
  \<^verbatim>\<open>accuracy_by_type\<close> is a dictionary from category to the list of accuracies, in order
  of first insertion: an association list with one entry per key.
\<close>

fun append_accuracy :: "string \<Rightarrow> real \<Rightarrow> (string \<times> real list) list \<Rightarrow> (string \<times> real list) list" where
  "append_accuracy category a [] = [(category, [a])]"
| "append_accuracy category a ((k, accs) # rest) =
     (if k = category then (k, accs @ [a]) # rest
      else (k, accs) # append_accuracy category a rest)"

definition collect_record :: "StoredPrediction \<Rightarrow> (string \<times> real list) list \<Rightarrow> (string \<times> real list) list" where
  "collect_record row accuracy_by_type =
     (case accuracy row of
        None \<Rightarrow> accuracy_by_type
      | Some a \<Rightarrow>
          fold (\<lambda>prediction abt.
                  append_accuracy (map_to_category (lower (disaster_type prediction))) a abt)
               (predictions row) accuracy_by_type)"

definition collect_accuracy_by_type :: "StoredPrediction list \<Rightarrow> (string \<times> real list) list" where
  "collect_accuracy_by_type recent_predictions = fold collect_record recent_predictions []"

definition update_coefficient :: "string \<times> real list \<Rightarrow> (string \<rightharpoonup> real) \<Rightarrow> (string \<rightharpoonup> real)" where
  "update_coefficient = (\<lambda>(category, accuracies) coefficients.
     if length accuracies > 0 then
       (let avg_accuracy = sum_list accuracies / real (length accuracies);
            adjustment = (avg_accuracy - 0.5) * 0.1
        in case coefficients category of
             Some c \<Rightarrow> coefficients(category \<mapsto> max 0.5 (min 1.5 (c + adjustment)))
           | None \<Rightarrow> coefficients)
     else coefficients)"

definition learn_from_history :: "DisasterPredictor \<Rightarrow> DisasterPredictor" where
  "learn_from_history self =
     (let recent_predictions = get_recent_predictions (storage self) 100
      in if length recent_predictions < 5 then self
         else self\<lparr>learning_coefficients :=
                     fold update_coefficient (collect_accuracy_by_type recent_predictions)
                          (learning_coefficients self)\<rparr>)"

subsection \<open>What the loops compute\<close>

text \<open>
  What the collecting loop gathers for one category, said directly: every record with
  feedback contributes its accuracy once for each of its predictions that maps to the
  category, in the order of the records. \<open>adjusted_coefficient\<close> is the new value the
  update loop stores for a coefficient \<open>c\<close>.
\<close>

definition category_of :: "DisasterPrediction \<Rightarrow> string" where
  "category_of prediction = map_to_category (lower (disaster_type prediction))"

definition record_accuracies :: "string \<Rightarrow> StoredPrediction \<Rightarrow> real list" where
  "record_accuracies category row =
     (case accuracy row of
        None \<Rightarrow> []
      | Some a \<Rightarrow> map (\<lambda>_. a) (filter (\<lambda>p. category_of p = category) (predictions row)))"

definition category_accuracies :: "string \<Rightarrow> StoredPrediction list \<Rightarrow> real list" where
  "category_accuracies category rows = concat (map (record_accuracies category) rows)"

definition adjusted_coefficient :: "real \<Rightarrow> real list \<Rightarrow> real" where
  "adjusted_coefficient c accs =
     max 0.5 (min 1.5 (c + (sum_list accs / real (length accs) - 0.5) * 0.1))"

definition lookup_accuracies :: "(string \<times> real list) list \<Rightarrow> string \<Rightarrow> real list" where
  "lookup_accuracies abt c = (case map_of abt c of None \<Rightarrow> [] | Some l \<Rightarrow> l)"

text \<open>A stored row with one flood finding, for the examples.\<close>

definition flood_row :: "real option \<Rightarrow> StoredPrediction" where
  "flood_row a =
     \<lparr>accuracy = a,
      predictions = [\<lparr>disaster_type = ''Severe Flood'', probability = 0.9, severity = ''Severe'',
        description = ''Multiple high-risk conditions indicate serious flooding potential''\<rparr>]\<rparr>"

section \<open>Location names\<close>

subsection \<open>Sequence matching\<close>

text \<open>
  \<^verbatim>\<open>difflib\<close> belongs to the standard library. Its matcher is modelled for sequences
  shorter than 200 items, where it treats no item as junk:
  \<^verbatim>\<open>find_longest_match\<close> returns the longest common block, of all longest ones the one that
  starts earliest in \<open>a\<close>, and of those the one that starts earliest in \<open>b\<close>; the search
  replaces its best block only by a strictly longer one.
\<close>

fun common_prefix_len :: "'a list \<Rightarrow> 'a list \<Rightarrow> nat" where
  "common_prefix_len (x # xs) (y # ys) = (if x = y then Suc (common_prefix_len xs ys) else 0)"
| "common_prefix_len _ _ = 0"

definition better_match :: "'a list \<Rightarrow> 'a list \<Rightarrow> nat \<times> nat \<Rightarrow> nat \<times> nat \<times> nat \<Rightarrow> nat \<times> nat \<times> nat" where
  "better_match a b = (\<lambda>(i, j) (besti, bestj, bestsize).
     (let k = common_prefix_len (drop i a) (drop j b)
      in if k > bestsize then (i, j, k) else (besti, bestj, bestsize)))"

definition find_longest_match :: "'a list \<Rightarrow> 'a list \<Rightarrow> nat \<times> nat \<times> nat" where
  "find_longest_match a b =
     fold (better_match a b) (List.product [0..<length a] [0..<length b]) (0, 0, 0)"

lemma better_match_bounds:
  assumes "\<forall>(i, j) \<in> set ps. i < length a \<and> j < length b"
    and "fold (better_match a b) ps acc = (i, j, k)"
    and "acc = (i0, j0, k0)"
    and "k0 \<noteq> 0 \<longrightarrow> i0 < length a \<and> j0 < length b"
  shows "k \<noteq> 0 \<longrightarrow> i < length a \<and> j < length b"
  using assms
proof (induction ps arbitrary: acc i0 j0 k0)
  case Nil
  then show ?case by simp
next
  case (Cons p ps)
  obtain i1 j1 k1 where step: "better_match a b p acc = (i1, j1, k1)"
    by (cases "better_match a b p acc") auto
  have "k1 \<noteq> 0 \<longrightarrow> i1 < length a \<and> j1 < length b"
    using step Cons.prems(1,3,4)
    by (cases p) (auto simp: better_match_def Let_def split: if_splits)
  moreover have "fold (better_match a b) ps (better_match a b p acc) = (i, j, k)"
    using Cons.prems(2) by simp
  ultimately show ?case
    using Cons.IH [of "better_match a b p acc" i1 j1 k1] Cons.prems(1) step by simp
qed

lemma find_longest_match_bounds:
  "find_longest_match a b = (i, j, k) \<Longrightarrow> k \<noteq> 0 \<Longrightarrow> i < length a \<and> j < length b"
  using better_match_bounds [of "List.product [0..<length a] [0..<length b]" a b "(0, 0, 0)" i j k 0 0 0]
  by (auto simp: find_longest_match_def)

text \<open>The summed sizes of the matching blocks: the longest block, then the same to its
  left and to its right.\<close>

function matching_size :: "'a list \<Rightarrow> 'a list \<Rightarrow> nat" where
  "matching_size a b =
     (case find_longest_match a b of
        (i, j, k) \<Rightarrow>
          if k = 0 then 0
          else matching_size (take i a) (take j b) + k
               + matching_size (drop (i + k) a) (drop (j + k) b))"
  by pat_completeness auto
termination
proof (relation "measure (\<lambda>(a, b). length a + length b)")
  show "wf (measure (\<lambda>(a, b). length a + length b))" by simp
next
  fix a b :: "'a list" and x i y j k
  assume "(i, y) = find_longest_match a b" "(j, k) = y" "k \<noteq> 0"
  then have "find_longest_match a b = (i, j, k)" by simp
  from find_longest_match_bounds [OF this \<open>k \<noteq> 0\<close>]
  show "((take i a, take j b), (a, b)) \<in> measure (\<lambda>(a, b). length a + length b)"
    by simp
next
  fix a b :: "'a list" and x i y j k
  assume "(i, y) = find_longest_match a b" "(j, k) = y" "k \<noteq> 0"
  then have "find_longest_match a b = (i, j, k)" by simp
  from find_longest_match_bounds [OF this \<open>k \<noteq> 0\<close>] \<open>k \<noteq> 0\<close>
  show "((drop (i + k) a, drop (j + k) b), (a, b)) \<in> measure (\<lambda>(a, b). length a + length b)"
    by (simp, arith)
qed

declare matching_size.simps [simp del]

definition calculate_ratio :: "nat \<Rightarrow> nat \<Rightarrow> real" where
  "calculate_ratio matches len = (if len > 0 then 2 * real matches / real len else 1)"

definition ratio :: "'a list \<Rightarrow> 'a list \<Rightarrow> real" where
  "ratio a b = calculate_ratio (matching_size a b) (length a + length b)"

text \<open>\<^verbatim>\<open>quick_ratio\<close> counts the items of \<open>a\<close> that \<open>b\<close> still has available.\<close>

fun quick_matches :: "'a list \<Rightarrow> 'a list \<Rightarrow> nat" where
  "quick_matches [] b = 0"
| "quick_matches (x # xs) b =
     (if x \<in> set b then Suc (quick_matches xs (remove1 x b)) else quick_matches xs b)"

definition quick_ratio :: "'a list \<Rightarrow> 'a list \<Rightarrow> real" where
  "quick_ratio a b = calculate_ratio (quick_matches a b) (length a + length b)"

definition real_quick_ratio :: "'a list \<Rightarrow> 'a list \<Rightarrow> real" where
  "real_quick_ratio a b = calculate_ratio (min (length a) (length b)) (length a + length b)"

text \<open>
  \<^verbatim>\<open>get_close_matches(word, possibilities, n=1, cutoff)\<close>: the scored candidates that pass
  the three tests, then the largest pair \<open>(score, x)\<close>, pairs compared first by score and
  then by string; of equal pairs the first stays.
\<close>

definition scored_less :: "real \<times> string \<Rightarrow> real \<times> string \<Rightarrow> bool" where
  "scored_less p q = (fst p < fst q \<or> (fst p = fst q \<and> snd p < snd q))"

definition get_close_matches :: "string \<Rightarrow> string list \<Rightarrow> real \<Rightarrow> string list" where
  "get_close_matches word possibilities cutoff =
     (let result =
            map (\<lambda>x. (ratio x word, x))
              (filter (\<lambda>x. real_quick_ratio x word \<ge> cutoff \<and> quick_ratio x word \<ge> cutoff
                            \<and> ratio x word \<ge> cutoff) possibilities)
      in case result of
           [] \<Rightarrow> []
         | r # rs \<Rightarrow> [snd (fold (\<lambda>y best. if scored_less best y then y else best) rs r)])"

subsection \<open>The resolver\<close>

definition names_location :: "string \<Rightarrow> string \<times> string list \<Rightarrow> bool" where
  "names_location s = (\<lambda>(correct_name, aliases). s = correct_name \<or> s \<in> set aliases)"

definition all_locations :: "string list" where
  "all_locations = map fst LOCATION_ALIASES @ concat (map snd LOCATION_ALIASES)"

definition correct_location_name :: "DisasterPredictor \<Rightarrow> string \<Rightarrow> string" where
  "correct_location_name self location_input =
     (if location_input = [] then location_input
      else
        (let location_lower = strip (lower location_input)
         in case find (names_location location_lower) LOCATION_ALIASES of
              Some (correct_name, aliases) \<Rightarrow> correct_name
            | None \<Rightarrow>
                (case get_close_matches location_lower all_locations 0.7 of
                   matched_alias # _ \<Rightarrow>
                     (case find (names_location matched_alias) LOCATION_ALIASES of
                        Some (correct_name, aliases) \<Rightarrow> correct_name
                      | None \<Rightarrow> location_input)
                 | [] \<Rightarrow> location_input)))"

section \<open>Properties of range validation\<close>

lemma getattr_opt_declared [simp]:
  "getattr_opt wd ''temperature'' = Some (temperature wd)"
  "getattr_opt wd ''humidity'' = Some (humidity wd)"
  "getattr_opt wd ''precipitation'' = Some (precipitation wd)"
  "getattr_opt wd ''wind_speed'' = Some (wind_speed wd)"
  "getattr_opt wd ''pressure'' = Some (pressure wd)"
  "getattr_opt wd ''snow_depth'' = Some (snow_depth wd)"
  "getattr_opt wd ''temperature_gradient'' = Some (temperature_gradient wd)"
  "getattr_opt wd ''consecutive_dry_days'' = Some (of_int (consecutive_dry_days wd))"
  "getattr_opt wd ''soil_saturation'' = Some (soil_saturation wd)"
  "getattr_opt wd ''temperature_change'' = Some (temperature_change wd)"
  "getattr_opt wd ''snow_fall'' = Some (snow_fall wd)"
  "getattr_opt wd ''air_quality_index'' = Some (of_int (air_quality_index wd))"
  "getattr_opt wd ''seismic_activity'' = Some (seismic_activity wd)"
  "getattr_opt wd ''coastal_proximity'' = Some (coastal_proximity wd)"
  "getattr_opt wd ''volcanic_activity'' = Some (volcanic_activity wd)"
  "getattr_opt wd ''pressure_change'' = Some (pressure_change wd)"
  "getattr_opt wd ''cloud_height'' = Some (cloud_height wd)"
  "getattr_opt wd ''dew_point'' = Some (dew_point wd)"
  "getattr_opt wd ''stagnant_water_index'' = Some (stagnant_water_index wd)"
  "getattr_opt wd ''urban_runoff_index'' = Some (urban_runoff_index wd)"
  by (simp_all add: getattr_opt_def)

lemma getattr_opt_undeclared [simp]:
  "getattr_opt wd ''precipitation_intensity'' = None"
  "getattr_opt wd ''sea_surface_temp'' = None"
  "getattr_opt wd ''consecutive_hot_days'' = None"
  "getattr_opt wd ''urban_density'' = None"
  "getattr_opt wd ''cape_value'' = None"
  "getattr_opt wd ''wind_shear'' = None"
  "getattr_opt wd ''helicity'' = None"
  "getattr_opt wd ''lifted_index'' = None"
  "getattr_opt wd ''underwater_quake'' = None"
  "getattr_opt wd ''vegetation_dryness'' = None"
  "getattr_opt wd ''dry_lightning_probability'' = None"
  "getattr_opt wd ''river_level_percent'' = None"
  "getattr_opt wd ''upstream_precipitation'' = None"
  by (simp_all add: getattr_opt_def)

lemma validate_unfold:
  "validate_weather_data wd =
     validate_attr wd (''seismic_activity'', 0, 10)
      (validate_attr wd (''air_quality_index'', 0, 1000)
        (validate_attr wd (''pressure'', 870, 1085)
          (validate_attr wd (''wind_speed'', 0, 150)
            (validate_attr wd (''precipitation'', 0, 2000)
              (validate_attr wd (''humidity'', 0, 100)
                (validate_attr wd (''temperature'', -70, 60) wd))))))"
  by (simp add: validate_weather_data_def VALID_RANGES_def)

lemma setattr_ranged:
  "setattr vd ''temperature'' v = vd\<lparr>temperature := v\<rparr>"
  "setattr vd ''humidity'' v = vd\<lparr>humidity := v\<rparr>"
  "setattr vd ''precipitation'' v = vd\<lparr>precipitation := v\<rparr>"
  "setattr vd ''wind_speed'' v = vd\<lparr>wind_speed := v\<rparr>"
  "setattr vd ''pressure'' v = vd\<lparr>pressure := v\<rparr>"
  "setattr vd ''air_quality_index'' v = vd\<lparr>air_quality_index := \<lfloor>v\<rfloor>\<rparr>"
  "setattr vd ''seismic_activity'' v = vd\<lparr>seismic_activity := v\<rparr>"
  by (simp_all add: setattr_def)

lemma validate_attr_simps:
  "validate_attr wd (''temperature'', lo, hi) vd =
     (if temperature wd < lo then vd\<lparr>temperature := lo\<rparr>
      else if temperature wd > hi then vd\<lparr>temperature := hi\<rparr> else vd)"
  "validate_attr wd (''humidity'', lo, hi) vd =
     (if humidity wd < lo then vd\<lparr>humidity := lo\<rparr>
      else if humidity wd > hi then vd\<lparr>humidity := hi\<rparr> else vd)"
  "validate_attr wd (''precipitation'', lo, hi) vd =
     (if precipitation wd < lo then vd\<lparr>precipitation := lo\<rparr>
      else if precipitation wd > hi then vd\<lparr>precipitation := hi\<rparr> else vd)"
  "validate_attr wd (''wind_speed'', lo, hi) vd =
     (if wind_speed wd < lo then vd\<lparr>wind_speed := lo\<rparr>
      else if wind_speed wd > hi then vd\<lparr>wind_speed := hi\<rparr> else vd)"
  "validate_attr wd (''pressure'', lo, hi) vd =
     (if pressure wd < lo then vd\<lparr>pressure := lo\<rparr>
      else if pressure wd > hi then vd\<lparr>pressure := hi\<rparr> else vd)"
  "validate_attr wd (''air_quality_index'', lo, hi) vd =
     (if of_int (air_quality_index wd) < lo then vd\<lparr>air_quality_index := \<lfloor>lo\<rfloor>\<rparr>
      else if of_int (air_quality_index wd) > hi then vd\<lparr>air_quality_index := \<lfloor>hi\<rfloor>\<rparr> else vd)"
  "validate_attr wd (''seismic_activity'', lo, hi) vd =
     (if seismic_activity wd < lo then vd\<lparr>seismic_activity := lo\<rparr>
      else if seismic_activity wd > hi then vd\<lparr>seismic_activity := hi\<rparr> else vd)"
  by (simp_all add: validate_attr_def setattr_ranged)

lemma setattr_frame:
  "n \<noteq> ''temperature'' \<Longrightarrow> temperature (setattr vd n v) = temperature vd"
  "n \<noteq> ''humidity'' \<Longrightarrow> humidity (setattr vd n v) = humidity vd"
  "n \<noteq> ''precipitation'' \<Longrightarrow> precipitation (setattr vd n v) = precipitation vd"
  "n \<noteq> ''wind_speed'' \<Longrightarrow> wind_speed (setattr vd n v) = wind_speed vd"
  "n \<noteq> ''pressure'' \<Longrightarrow> pressure (setattr vd n v) = pressure vd"
  "n \<noteq> ''air_quality_index'' \<Longrightarrow> air_quality_index (setattr vd n v) = air_quality_index vd"
  "n \<noteq> ''seismic_activity'' \<Longrightarrow> seismic_activity (setattr vd n v) = seismic_activity vd"
  by (simp_all add: setattr_def)

lemma setattr_other [simp]:
  "snow_depth (setattr vd n v) = snow_depth vd"
  "temperature_gradient (setattr vd n v) = temperature_gradient vd"
  "consecutive_dry_days (setattr vd n v) = consecutive_dry_days vd"
  "soil_saturation (setattr vd n v) = soil_saturation vd"
  "temperature_change (setattr vd n v) = temperature_change vd"
  "snow_fall (setattr vd n v) = snow_fall vd"
  "coastal_proximity (setattr vd n v) = coastal_proximity vd"
  "volcanic_activity (setattr vd n v) = volcanic_activity vd"
  "pressure_change (setattr vd n v) = pressure_change vd"
  "cloud_height (setattr vd n v) = cloud_height vd"
  "dew_point (setattr vd n v) = dew_point vd"
  "stagnant_water_index (setattr vd n v) = stagnant_water_index vd"
  "urban_runoff_index (setattr vd n v) = urban_runoff_index vd"
  "temperature_profile (setattr vd n v) = temperature_profile vd"
  by (simp_all add: setattr_def)

lemma validate_attr_cases:
  "validate_attr wd (n, lo, hi) vd = vd \<or> (\<exists>v. validate_attr wd (n, lo, hi) vd = setattr vd n v)"
  by (auto simp: validate_attr_def split: option.split)

lemma validate_attr_frame:
  "n \<noteq> ''temperature'' \<Longrightarrow> temperature (validate_attr wd (n, lo, hi) vd) = temperature vd"
  "n \<noteq> ''humidity'' \<Longrightarrow> humidity (validate_attr wd (n, lo, hi) vd) = humidity vd"
  "n \<noteq> ''precipitation'' \<Longrightarrow> precipitation (validate_attr wd (n, lo, hi) vd) = precipitation vd"
  "n \<noteq> ''wind_speed'' \<Longrightarrow> wind_speed (validate_attr wd (n, lo, hi) vd) = wind_speed vd"
  "n \<noteq> ''pressure'' \<Longrightarrow> pressure (validate_attr wd (n, lo, hi) vd) = pressure vd"
  "n \<noteq> ''air_quality_index'' \<Longrightarrow> air_quality_index (validate_attr wd (n, lo, hi) vd) = air_quality_index vd"
  "n \<noteq> ''seismic_activity'' \<Longrightarrow> seismic_activity (validate_attr wd (n, lo, hi) vd) = seismic_activity vd"
  using validate_attr_cases [of wd n lo hi vd] by (auto simp: setattr_frame)

lemma validate_attr_other [simp]:
  "snow_depth (validate_attr wd r vd) = snow_depth vd"
  "temperature_gradient (validate_attr wd r vd) = temperature_gradient vd"
  "consecutive_dry_days (validate_attr wd r vd) = consecutive_dry_days vd"
  "soil_saturation (validate_attr wd r vd) = soil_saturation vd"
  "temperature_change (validate_attr wd r vd) = temperature_change vd"
  "snow_fall (validate_attr wd r vd) = snow_fall vd"
  "coastal_proximity (validate_attr wd r vd) = coastal_proximity vd"
  "volcanic_activity (validate_attr wd r vd) = volcanic_activity vd"
  "pressure_change (validate_attr wd r vd) = pressure_change vd"
  "cloud_height (validate_attr wd r vd) = cloud_height vd"
  "dew_point (validate_attr wd r vd) = dew_point vd"
  "stagnant_water_index (validate_attr wd r vd) = stagnant_water_index vd"
  "urban_runoff_index (validate_attr wd r vd) = urban_runoff_index vd"
  "temperature_profile (validate_attr wd r vd) = temperature_profile vd"
  using validate_attr_cases [of wd "fst r" "fst (snd r)" "snd (snd r)" vd] by auto

lemma validate_other:
  "snow_depth (validate_weather_data wd) = snow_depth wd"
  "temperature_gradient (validate_weather_data wd) = temperature_gradient wd"
  "consecutive_dry_days (validate_weather_data wd) = consecutive_dry_days wd"
  "soil_saturation (validate_weather_data wd) = soil_saturation wd"
  "temperature_change (validate_weather_data wd) = temperature_change wd"
  "snow_fall (validate_weather_data wd) = snow_fall wd"
  "coastal_proximity (validate_weather_data wd) = coastal_proximity wd"
  "volcanic_activity (validate_weather_data wd) = volcanic_activity wd"
  "pressure_change (validate_weather_data wd) = pressure_change wd"
  "cloud_height (validate_weather_data wd) = cloud_height wd"
  "dew_point (validate_weather_data wd) = dew_point wd"
  "stagnant_water_index (validate_weather_data wd) = stagnant_water_index wd"
  "urban_runoff_index (validate_weather_data wd) = urban_runoff_index wd"
  "temperature_profile (validate_weather_data wd) = temperature_profile wd"
  unfolding validate_unfold by simp_all

lemma validate_temperature:
  "temperature (validate_weather_data wd) =
     (if temperature wd < -70 then -70 else if temperature wd > 60 then 60 else temperature wd)"
  unfolding validate_unfold
  by (simp add: validate_attr_frame) (simp add: validate_attr_simps)

lemma validate_humidity:
  "humidity (validate_weather_data wd) =
     (if humidity wd < 0 then 0 else if humidity wd > 100 then 100 else humidity wd)"
  unfolding validate_unfold
  by (simp add: validate_attr_frame) (simp add: validate_attr_simps)

lemma validate_precipitation:
  "precipitation (validate_weather_data wd) =
     (if precipitation wd < 0 then 0 else if precipitation wd > 2000 then 2000 else precipitation wd)"
  unfolding validate_unfold
  by (simp add: validate_attr_frame) (simp add: validate_attr_simps)

lemma validate_wind_speed:
  "wind_speed (validate_weather_data wd) =
     (if wind_speed wd < 0 then 0 else if wind_speed wd > 150 then 150 else wind_speed wd)"
  unfolding validate_unfold
  by (simp add: validate_attr_frame) (simp add: validate_attr_simps)

lemma validate_pressure:
  "pressure (validate_weather_data wd) =
     (if pressure wd < 870 then 870 else if pressure wd > 1085 then 1085 else pressure wd)"
  unfolding validate_unfold
  by (simp add: validate_attr_frame) (simp add: validate_attr_simps)

lemma validate_air_quality_index:
  "air_quality_index (validate_weather_data wd) =
     (if air_quality_index wd < 0 then 0 else if air_quality_index wd > 1000 then 1000 else air_quality_index wd)"
  unfolding validate_unfold
  by (simp add: validate_attr_frame) (simp add: validate_attr_simps)

lemma validate_seismic_activity:
  "seismic_activity (validate_weather_data wd) =
     (if seismic_activity wd < 0 then 0 else if seismic_activity wd > 10 then 10 else seismic_activity wd)"
  unfolding validate_unfold
  by (simp add: validate_attr_frame) (simp add: validate_attr_simps)

lemmas validate_ranged = validate_temperature validate_humidity validate_precipitation
  validate_wind_speed validate_pressure validate_air_quality_index validate_seismic_activity

text \<open>
  C8. For every attribute with a declared range \<open>[lo, hi]\<close> and every value \<open>v\<close> of that
  attribute, validation yields \<open>lo\<close> when \<open>v < lo\<close>, \<open>hi\<close> when \<open>v > hi\<close>, and \<open>v\<close> itself when
  \<open>lo \<le> v \<le> hi\<close>. Attributes without a declared range keep their value, and so does the
  one non-numeric field, \<^verbatim>\<open>temperature_profile\<close>.
\<close>

theorem validate_weather_data_clamps:
  "(\<forall>(attr, lo, hi) \<in> set VALID_RANGES. \<forall>v. getattr_opt wd attr = Some v \<longrightarrow>
      (v < lo \<longrightarrow> getattr_opt (validate_weather_data wd) attr = Some lo) \<and>
      (v > hi \<longrightarrow> getattr_opt (validate_weather_data wd) attr = Some hi) \<and>
      (lo \<le> v \<and> v \<le> hi \<longrightarrow> getattr_opt (validate_weather_data wd) attr = Some v))
   \<and> (\<forall>attr. attr \<notin> fst ` set VALID_RANGES \<longrightarrow>
         getattr_opt (validate_weather_data wd) attr = getattr_opt wd attr)
   \<and> temperature_profile (validate_weather_data wd) = temperature_profile wd"
proof (intro conjI)
  show "\<forall>(attr, lo, hi) \<in> set VALID_RANGES. \<forall>v. getattr_opt wd attr = Some v \<longrightarrow>
      (v < lo \<longrightarrow> getattr_opt (validate_weather_data wd) attr = Some lo) \<and>
      (v > hi \<longrightarrow> getattr_opt (validate_weather_data wd) attr = Some hi) \<and>
      (lo \<le> v \<and> v \<le> hi \<longrightarrow> getattr_opt (validate_weather_data wd) attr = Some v)"
    by (simp add: VALID_RANGES_def getattr_opt_def validate_ranged)
  show "\<forall>attr. attr \<notin> fst ` set VALID_RANGES \<longrightarrow>
         getattr_opt (validate_weather_data wd) attr = getattr_opt wd attr"
    by (simp add: VALID_RANGES_def getattr_opt_def validate_other)
  show "temperature_profile (validate_weather_data wd) = temperature_profile wd"
    by (simp add: validate_other)
qed

theorem validate_weather_data_clamps_witness:
  "(''temperature'', -70, 60) \<in> set VALID_RANGES
   \<and> getattr_opt (WeatherData_default\<lparr>temperature := 100\<rparr>) ''temperature'' = Some 100
   \<and> (60 :: real) < 100
   \<and> getattr_opt (validate_weather_data (WeatherData_default\<lparr>temperature := 100\<rparr>)) ''temperature''
       = Some 60
   \<and> ''snow_depth'' \<notin> fst ` set VALID_RANGES
   \<and> getattr_opt (validate_weather_data (WeatherData_default\<lparr>temperature := 100\<rparr>)) ''snow_depth''
       = getattr_opt (WeatherData_default\<lparr>temperature := 100\<rparr>) ''snow_depth''"
proof -
  let ?wd = "WeatherData_default\<lparr>temperature := 100\<rparr>"
  have mem: "(''temperature'', -70, 60) \<in> set VALID_RANGES"
    by (simp add: VALID_RANGES_def)
  have rd: "getattr_opt ?wd ''temperature'' = Some 100"
    by (simp add: getattr_opt_def)
  have out: "''snow_depth'' \<notin> fst ` set VALID_RANGES"
    by (simp add: VALID_RANGES_def)
  from validate_weather_data_clamps [of ?wd]
  have ranged: "\<forall>(attr, lo, hi) \<in> set VALID_RANGES. \<forall>v. getattr_opt ?wd attr = Some v \<longrightarrow>
      (v > hi \<longrightarrow> getattr_opt (validate_weather_data ?wd) attr = Some hi)"
    and other: "\<forall>attr. attr \<notin> fst ` set VALID_RANGES \<longrightarrow>
         getattr_opt (validate_weather_data ?wd) attr = getattr_opt ?wd attr"
    by blast+
  from ranged mem rd have "getattr_opt (validate_weather_data ?wd) ''temperature'' = Some 60"
    by fastforce
  moreover from other out
  have "getattr_opt (validate_weather_data ?wd) ''snow_depth'' = getattr_opt ?wd ''snow_depth''"
    by blast
  ultimately show ?thesis using mem rd out by simp
qed

section \<open>Reads of undeclared attributes\<close>

text \<open>
  The flash flood block reads \<^verbatim>\<open>precipitation_intensity\<close> as soon as precipitation exceeds
  30, and the hurricane block reads \<^verbatim>\<open>sea_surface_temp\<close> as soon as wind speed exceeds 75
  with pressure below 980. Neither is a field of \<^verbatim>\<open>WeatherData\<close>.
\<close>

lemma flash_flood_raises:
  "precipitation wd > 30 \<Longrightarrow>
   flash_flood_findings self wd = Inl (AttributeError ''precipitation_intensity'')"
  by (simp add: flash_flood_findings_def getattr_def)

lemma flash_flood_quiet:
  "\<not> precipitation wd > 30 \<Longrightarrow> flash_flood_findings self wd = Inr []"
  by (simp add: flash_flood_findings_def)

lemma hurricane_raises:
  "wind_speed wd > 75 \<Longrightarrow> pressure wd < 980 \<Longrightarrow>
   hurricane_findings self wd = Inl (AttributeError ''sea_surface_temp'')"
  by (simp add: hurricane_findings_def getattr_def)

lemma hurricane_quiet:
  "\<not> (wind_speed wd > 75 \<and> pressure wd < 980) \<Longrightarrow> hurricane_findings self wd = Inr []"
  by (auto simp: hurricane_findings_def)

lemma predict_disasters_raises_on_heavy_rain:
  "precipitation (sanitize_input raw) > 30 \<Longrightarrow>
   predict_disasters self raw = Inl (AttributeError ''precipitation_intensity'')"
  by (simp add: predict_disasters_def hazard_findings_def flash_flood_raises)

lemma predict_disasters_raises_on_hurricane_conditions:
  "\<not> precipitation (sanitize_input raw) > 30 \<Longrightarrow>
   wind_speed (sanitize_input raw) > 75 \<Longrightarrow> pressure (sanitize_input raw) < 980 \<Longrightarrow>
   predict_disasters self raw = Inl (AttributeError ''sea_surface_temp'')"
  by (simp add: predict_disasters_def hazard_findings_def flash_flood_quiet hurricane_raises)

lemma sanitize_flash_flood_scenario:
  "sanitize_input (Dict [(''precipitation'', PInt 35), (''precipitation_intensity'', PInt 18)])
   = WeatherData_default\<lparr>precipitation := 35\<rparr>"
  by code_simp

text \<open>
  C2. On the dictionary \<^verbatim>\<open>{precipitation: 35, precipitation_intensity: 18}\<close> the call does
  not return a list: the key \<^verbatim>\<open>precipitation_intensity\<close> is dropped when the object is
  built, and the flash flood block then raises \<^verbatim>\<open>AttributeError\<close> on reading it, whatever
  the state of the predictor.
\<close>

theorem flash_flood_scenario_raises:
  "predict_disasters self (Dict [(''precipitation'', PInt 35), (''precipitation_intensity'', PInt 18)])
   = Inl (AttributeError ''precipitation_intensity'')"
  by (simp add: predict_disasters_def hazard_findings_def sanitize_flash_flood_scenario
      flash_flood_raises)

lemma sanitize_hurricane_scenario:
  "sanitize_input
     (Dict [(''wind_speed'', PInt 80), (''pressure'', PInt 975), (''sea_surface_temp'', PInt 27)])
   = WeatherData_default\<lparr>wind_speed := 80, pressure := 975\<rparr>"
  by code_simp

text \<open>
  C3. On the observation with wind speed 80, pressure 975 and sea surface temperature 27 the
  call does not return a list either: the hurricane block raises \<^verbatim>\<open>AttributeError\<close> on
  reading \<^verbatim>\<open>sea_surface_temp\<close>.
\<close>

theorem hurricane_scenario_raises:
  "predict_disasters self
     (Dict [(''wind_speed'', PInt 80), (''pressure'', PInt 975), (''sea_surface_temp'', PInt 27)])
   = Inl (AttributeError ''sea_surface_temp'')"
  by (simp add: predict_disasters_def hazard_findings_def sanitize_hurricane_scenario
      flash_flood_quiet hurricane_raises WeatherData_default_def)

section \<open>Learning coefficients in the risk functions\<close>

text \<open>The flood risk scales with its coefficient; the other four risks never read one.\<close>

lemma flood_risk_scales:
  "flood_risk_unclamped
     (self\<lparr>learning_coefficients := (learning_coefficients self)(''flood'' \<mapsto> c)\<rparr>) wd
   = c * flood_risk_unclamped
           (self\<lparr>learning_coefficients := (learning_coefficients self)(''flood'' \<mapsto> 1)\<rparr>) wd"
  by (simp add: flood_risk_unclamped_def get_attribute_safely_def Let_def)

lemma other_risks_ignore_coefficients:
  "heat_risk_unclamped (self\<lparr>learning_coefficients := lc\<rparr>) wd = heat_risk_unclamped self wd"
  "storm_severity_unclamped (self\<lparr>learning_coefficients := lc\<rparr>) wd = storm_severity_unclamped self wd"
  "calculate_tornado_risk (self\<lparr>learning_coefficients := lc\<rparr>) wd = calculate_tornado_risk self wd"
  "wildfire_risk_unclamped (self\<lparr>learning_coefficients := lc\<rparr>) wd = wildfire_risk_unclamped self wd"
  by (simp_all add: heat_risk_unclamped_def storm_severity_unclamped_def calculate_tornado_risk_def
      tornado_risk_unclamped_def wildfire_risk_unclamped_def)

text \<open>
  C6. At 35 degrees, all else at its default, the heat risk before the clamp is 0.35 with
  the \<^verbatim>\<open>heat_wave\<close> coefficient at 1 and still 0.35 with the coefficient at 0.5; the
  risk returned is 0.35 as well.
\<close>

theorem heat_risk_ignores_coefficient:
  "heat_risk_unclamped
     \<lparr>storage = [], learning_coefficients = initial_coefficients(''heat_wave'' \<mapsto> 1)\<rparr>
     (WeatherData_default\<lparr>temperature := 35\<rparr>) = 0.35
   \<and> heat_risk_unclamped
     \<lparr>storage = [], learning_coefficients = initial_coefficients(''heat_wave'' \<mapsto> 0.5)\<rparr>
     (WeatherData_default\<lparr>temperature := 35\<rparr>) = 0.35
   \<and> calculate_heat_risk
     \<lparr>storage = [], learning_coefficients = initial_coefficients(''heat_wave'' \<mapsto> 0.5)\<rparr>
     (WeatherData_default\<lparr>temperature := 35\<rparr>) = 0.35"
  by (simp add: heat_risk_unclamped_def calculate_heat_risk_def WeatherData_default_def)

section \<open>The list of findings\<close>

lemma hazard_findings_quiet:
  assumes "\<not> precipitation wd > 30" and "\<not> (wind_speed wd > 75 \<and> pressure wd < 980)"
  shows "hazard_findings self wd =
     Inr (flood_findings self wd @ urban_flooding_findings self wd @ heat_findings self wd
          @ storm_findings self wd @ tornado_findings self wd @ winter_storm_findings self wd
          @ geological_findings self wd @ wildfire_findings self wd
          @ air_quality_findings self wd)"
  using assms by (simp add: hazard_findings_def flash_flood_quiet hurricane_quiet)

lemma hazard_findings_Inr:
  assumes "hazard_findings self wd = Inr ps"
  shows "\<not> precipitation wd > 30 \<and> \<not> (wind_speed wd > 75 \<and> pressure wd < 980)"
proof -
  have "\<not> precipitation wd > 30"
    using assms by (auto simp: hazard_findings_def flash_flood_raises)
  moreover have "\<not> (wind_speed wd > 75 \<and> pressure wd < 980)"
    using assms by (auto simp: hazard_findings_def hurricane_raises split: sum.splits)
  ultimately show ?thesis by simp
qed

lemma tsunami_free:
  "p \<in> set (flood_findings self wd) \<Longrightarrow> disaster_type p \<noteq> ''Tsunami''"
  "p \<in> set (urban_flooding_findings self wd) \<Longrightarrow> disaster_type p \<noteq> ''Tsunami''"
  "p \<in> set (heat_findings self wd) \<Longrightarrow> disaster_type p \<noteq> ''Tsunami''"
  "p \<in> set (storm_findings self wd) \<Longrightarrow> disaster_type p \<noteq> ''Tsunami''"
  "p \<in> set (tornado_findings self wd) \<Longrightarrow> disaster_type p \<noteq> ''Tsunami''"
  "p \<in> set (winter_storm_findings self wd) \<Longrightarrow> disaster_type p \<noteq> ''Tsunami''"
  "p \<in> set (wildfire_findings self wd) \<Longrightarrow> disaster_type p \<noteq> ''Tsunami''"
  "p \<in> set (air_quality_findings self wd) \<Longrightarrow> disaster_type p \<noteq> ''Tsunami''"
  by (auto simp: flood_findings_def urban_flooding_findings_def heat_findings_def
      storm_findings_def tornado_findings_def winter_storm_findings_def wildfire_findings_def
      air_quality_findings_def Let_def split: if_splits)

lemma suffix_earthquake: "suffix ''Earthquake'' (s @ '' Earthquake'')"
  by (rule suffixI [of _ "s @ '' ''"]) simp

lemma geological_head:
  "geological_findings self wd \<noteq> [] \<Longrightarrow>
   suffix ''Earthquake'' (disaster_type (hd (geological_findings self wd)))"
  by (simp add: geological_findings_def Let_def suffix_earthquake split: if_splits)

text \<open>
  C10. Whenever the returned list holds a finding labelled \<^verbatim>\<open>Tsunami\<close>, it also holds a
  finding whose label ends in \<^verbatim>\<open>Earthquake\<close>: only the geological block produces the
  label \<^verbatim>\<open>Tsunami\<close>, and that block puts the earthquake finding first.
\<close>

theorem tsunami_implies_earthquake:
  assumes "predict_disasters self raw = Inr ps"
    and "\<exists>p \<in> set ps. disaster_type p = ''Tsunami''"
  shows "\<exists>q \<in> set ps. suffix ''Earthquake'' (disaster_type q)"
proof -
  let ?wd = "sanitize_input raw"
  obtain hs where hs: "hazard_findings self ?wd = Inr hs"
    and ps: "ps = (if hs = [] then [no_significant_hazards] else hs)"
    using assms(1) by (auto simp: predict_disasters_def Let_def split: sum.splits)
  have "disaster_type no_significant_hazards \<noteq> ''Tsunami''"
    by (simp add: no_significant_hazards_def)
  with assms(2) ps have ne: "hs \<noteq> []" and "ps = hs"
    by (auto split: if_splits)
  from hazard_findings_Inr [OF hs] hazard_findings_quiet [of ?wd self] hs
  have hs_eq: "hs = flood_findings self ?wd @ urban_flooding_findings self ?wd
          @ heat_findings self ?wd @ storm_findings self ?wd @ tornado_findings self ?wd
          @ winter_storm_findings self ?wd @ geological_findings self ?wd
          @ wildfire_findings self ?wd @ air_quality_findings self ?wd"
    by simp
  from assms(2) \<open>ps = hs\<close> obtain p where "p \<in> set hs" "disaster_type p = ''Tsunami''"
    by blast
  then have "p \<in> set (geological_findings self ?wd)"
    unfolding hs_eq using tsunami_free [of p self ?wd] by auto
  then have g: "geological_findings self ?wd \<noteq> []" by auto
  then have "hd (geological_findings self ?wd) \<in> set hs"
    unfolding hs_eq by simp
  with geological_head [OF g] \<open>ps = hs\<close> show ?thesis by blast
qed

theorem tsunami_implies_earthquake_witness:
  "predict_disasters (DisasterPredictor_init [])
      (Dict [(''seismic_activity'', PInt 7), (''coastal_proximity'', PInt 50)])
    = Inr [\<lparr>disaster_type = ''Major Earthquake'', probability = 0.7, severity = ''Major'',
            description = ''Seismic activity of magnitude 7.0 detected''\<rparr>,
           \<lparr>disaster_type = ''Tsunami'', probability = 0.5, severity = ''Moderate'',
            description = ''Seismic activity near coast creates tsunami risk, potential wave height: 1.0m''\<rparr>]
   \<and> (\<exists>q \<in> set [\<lparr>disaster_type = ''Major Earthquake'', probability = 0.7, severity = ''Major'',
            description = ''Seismic activity of magnitude 7.0 detected''\<rparr>,
           \<lparr>disaster_type = ''Tsunami'', probability = 0.5, severity = ''Moderate'',
            description = ''Seismic activity near coast creates tsunami risk, potential wave height: 1.0m''\<rparr>].
         suffix ''Earthquake'' (disaster_type q))"
proof -
  let ?ps = "[\<lparr>disaster_type = ''Major Earthquake'', probability = 0.7, severity = ''Major'',
            description = ''Seismic activity of magnitude 7.0 detected''\<rparr>,
           \<lparr>disaster_type = ''Tsunami'', probability = 0.5, severity = ''Moderate'',
            description = ''Seismic activity near coast creates tsunami risk, potential wave height: 1.0m''\<rparr>]"
  have run: "predict_disasters (DisasterPredictor_init [])
      (Dict [(''seismic_activity'', PInt 7), (''coastal_proximity'', PInt 50)]) = Inr ?ps"
    by code_simp
  have "\<exists>p \<in> set ?ps. disaster_type p = ''Tsunami''" by simp
  from tsunami_implies_earthquake [OF run this] run show ?thesis by blast
qed

text \<open>
  What the default case does guarantee: the call never returns the empty list; when the
  blocks ran through and appended nothing, the result is exactly the one sentinel
  \<^verbatim>\<open>No Significant Hazards\<close> with probability 0.8 and severity \<^verbatim>\<open>Low\<close>, otherwise it is the
  list of findings; and the call returns on every observation that does not reach one of
  the two reads of an undeclared attribute.
\<close>

lemma predict_disasters_nonempty:
  "predict_disasters self raw \<noteq> Inr []
   \<and> (hazard_findings self (sanitize_input raw) = Inr [] \<longrightarrow>
        predict_disasters self raw = Inr [no_significant_hazards])
   \<and> (\<forall>ps. hazard_findings self (sanitize_input raw) = Inr ps \<and> ps \<noteq> [] \<longrightarrow>
        predict_disasters self raw = Inr ps)
   \<and> (\<not> precipitation (sanitize_input raw) > 30
        \<and> \<not> (wind_speed (sanitize_input raw) > 75 \<and> pressure (sanitize_input raw) < 980) \<longrightarrow>
        (\<exists>ps. predict_disasters self raw = Inr ps \<and> ps \<noteq> []))
   \<and> disaster_type no_significant_hazards = ''No Significant Hazards''
   \<and> probability no_significant_hazards = 0.8
   \<and> severity no_significant_hazards = ''Low''"
proof (intro conjI impI allI)
  show "predict_disasters self raw \<noteq> Inr []"
    by (simp add: predict_disasters_def Let_def split: sum.splits)
  show "predict_disasters self raw = Inr [no_significant_hazards]"
    if "hazard_findings self (sanitize_input raw) = Inr []"
    using that by (simp add: predict_disasters_def)
  show "predict_disasters self raw = Inr ps"
    if "hazard_findings self (sanitize_input raw) = Inr ps \<and> ps \<noteq> []" for ps
    using that by (simp add: predict_disasters_def)
  show "\<exists>ps. predict_disasters self raw = Inr ps \<and> ps \<noteq> []"
    if "\<not> precipitation (sanitize_input raw) > 30
        \<and> \<not> (wind_speed (sanitize_input raw) > 75 \<and> pressure (sanitize_input raw) < 980)"
    using that hazard_findings_quiet [of "sanitize_input raw" self]
    by (simp add: predict_disasters_def Let_def)
qed (simp_all add: no_significant_hazards_def)

lemma predict_disasters_nonempty_example:
  "hazard_findings (DisasterPredictor_init []) (sanitize_input (Dict [])) = Inr []
   \<and> predict_disasters (DisasterPredictor_init []) (Dict []) = Inr [no_significant_hazards]
   \<and> \<not> precipitation (sanitize_input (Dict [])) > 30
   \<and> \<not> (wind_speed (sanitize_input (Dict [])) > 75 \<and> pressure (sanitize_input (Dict [])) < 980)
   \<and> (\<exists>ps. predict_disasters (DisasterPredictor_init []) (Dict []) = Inr ps \<and> ps \<noteq> [])"
proof -
  have quiet: "hazard_findings (DisasterPredictor_init []) (sanitize_input (Dict [])) = Inr []"
    by code_simp
  have calm: "\<not> precipitation (sanitize_input (Dict [])) > 30
      \<and> \<not> (wind_speed (sanitize_input (Dict [])) > 75 \<and> pressure (sanitize_input (Dict [])) < 980)"
    by code_simp
  from predict_disasters_nonempty [of "DisasterPredictor_init []" "Dict []"] quiet calm
  show ?thesis by blast
qed

text \<open>
  C7. On the dictionary \<^verbatim>\<open>{temperature: 10, precipitation: 31}\<close> no block clears a band:
  each of them appends nothing. Yet the call returns neither the sentinel nor any other
  list: precipitation exceeds 30, so the flash flood block reads the undeclared
  \<^verbatim>\<open>precipitation_intensity\<close> and the call ends in \<^verbatim>\<open>AttributeError\<close>.
\<close>

theorem sentinel_missing_on_heavy_rain:
  "predict_disasters (DisasterPredictor_init [])
     (Dict [(''temperature'', PInt 10), (''precipitation'', PInt 31)])
   = Inl (AttributeError ''precipitation_intensity'')
   \<and> sanitize_input (Dict [(''temperature'', PInt 10), (''precipitation'', PInt 31)])
       = WeatherData_default\<lparr>temperature := 10, precipitation := 31\<rparr>
   \<and> flood_findings (DisasterPredictor_init [])
         (WeatherData_default\<lparr>temperature := 10, precipitation := 31\<rparr>) = []
   \<and> urban_flooding_findings (DisasterPredictor_init [])
         (WeatherData_default\<lparr>temperature := 10, precipitation := 31\<rparr>) = []
   \<and> heat_findings (DisasterPredictor_init [])
         (WeatherData_default\<lparr>temperature := 10, precipitation := 31\<rparr>) = []
   \<and> storm_findings (DisasterPredictor_init [])
         (WeatherData_default\<lparr>temperature := 10, precipitation := 31\<rparr>) = []
   \<and> hurricane_findings (DisasterPredictor_init [])
         (WeatherData_default\<lparr>temperature := 10, precipitation := 31\<rparr>) = Inr []
   \<and> tornado_findings (DisasterPredictor_init [])
         (WeatherData_default\<lparr>temperature := 10, precipitation := 31\<rparr>) = []
   \<and> winter_storm_findings (DisasterPredictor_init [])
         (WeatherData_default\<lparr>temperature := 10, precipitation := 31\<rparr>) = []
   \<and> geological_findings (DisasterPredictor_init [])
         (WeatherData_default\<lparr>temperature := 10, precipitation := 31\<rparr>) = []
   \<and> wildfire_findings (DisasterPredictor_init [])
         (WeatherData_default\<lparr>temperature := 10, precipitation := 31\<rparr>) = []
   \<and> air_quality_findings (DisasterPredictor_init [])
         (WeatherData_default\<lparr>temperature := 10, precipitation := 31\<rparr>) = []"
  by code_simp

section \<open>Probabilities\<close>

text \<open>
  Every block but the winter storm block keeps its probability within \<open>(0, 0.95]\<close>; the
  tsunami bonus for underwater quakes is never added, since \<^verbatim>\<open>underwater_quake\<close> is no
  declared field.
\<close>

lemma clamped_findings_bounded:
  "p \<in> set (flood_findings self wd) \<Longrightarrow> 0 < probability p \<and> probability p \<le> 0.95"
  "p \<in> set (urban_flooding_findings self wd) \<Longrightarrow> 0 < probability p \<and> probability p \<le> 0.95"
  "p \<in> set (heat_findings self wd) \<Longrightarrow> 0 < probability p \<and> probability p \<le> 0.95"
  "p \<in> set (storm_findings self wd) \<Longrightarrow> 0 < probability p \<and> probability p \<le> 0.95"
  "p \<in> set (tornado_findings self wd) \<Longrightarrow> 0 < probability p \<and> probability p \<le> 0.95"
  "p \<in> set (wildfire_findings self wd) \<Longrightarrow> 0 < probability p \<and> probability p \<le> 0.95"
  "p \<in> set (air_quality_findings self wd) \<Longrightarrow> 0 < probability p \<and> probability p \<le> 0.95"
  by (auto simp: flood_findings_def calculate_flood_risk_def
      urban_flooding_findings_def heat_findings_def calculate_heat_risk_def
      storm_findings_def tornado_findings_def calculate_tornado_risk_def
      wildfire_findings_def calculate_wildfire_risk_def
      air_quality_findings_def Let_def split: if_splits)

lemma geological_probabilities:
  "map probability (geological_findings self wd) =
     (if seismic_activity wd > 5
      then min 0.95 (0.5 + (seismic_activity wd - 5) * 0.1)
           # (if seismic_activity wd > 6.5 \<and> coastal_proximity wd < 100
              then [0.4 + min 0.5 ((seismic_activity wd - 6.5) * 0.2)] else [])
      else [])"
  by (simp add: geological_findings_def tsunami_findings_def Let_def)

lemma geological_findings_bounded:
  assumes "p \<in> set (geological_findings self wd)"
  shows "0 < probability p \<and> probability p \<le> 0.95"
proof -
  from assms have "probability p \<in> set (map probability (geological_findings self wd))"
    by simp
  then have "5 < seismic_activity wd
      \<and> (probability p = min 0.95 (0.5 + (seismic_activity wd - 5) * 0.1)
           \<or> 6.5 < seismic_activity wd
             \<and> probability p = 0.4 + min 0.5 ((seismic_activity wd - 6.5) * 0.2))"
    unfolding geological_probabilities by (auto split: if_splits)
  then show ?thesis by (auto simp: min_def field_simps split: if_splits)
qed

lemma winter_storm_findings_bounded:
  "p \<in> set (winter_storm_findings self wd) \<Longrightarrow>
   0 < probability p \<and> probability p \<le> 1
   \<and> (disaster_type p = ''Winter Storm'' \<or> disaster_type p = ''Blizzard'')"
  by (auto simp: winter_storm_findings_def Let_def split: if_splits)

lemma only_winter_storm_exceeds:
  assumes "predict_disasters self raw = Inr ps" and "p \<in> set ps"
  shows "0 < probability p \<and> probability p \<le> 1
     \<and> (probability p \<le> 0.95 \<or> disaster_type p = ''Winter Storm'' \<or> disaster_type p = ''Blizzard'')"
proof -
  let ?wd = "sanitize_input raw"
  obtain hs where hs: "hazard_findings self ?wd = Inr hs"
    and ps: "ps = (if hs = [] then [no_significant_hazards] else hs)"
    using assms(1) by (auto simp: predict_disasters_def Let_def split: sum.splits)
  show ?thesis
  proof (cases "hs = []")
    case True
    with ps assms(2) show ?thesis by (simp add: no_significant_hazards_def)
  next
    case False
    from hazard_findings_Inr [OF hs] hazard_findings_quiet [of ?wd self] hs
    have "hs = flood_findings self ?wd @ urban_flooding_findings self ?wd
          @ heat_findings self ?wd @ storm_findings self ?wd @ tornado_findings self ?wd
          @ winter_storm_findings self ?wd @ geological_findings self ?wd
          @ wildfire_findings self ?wd @ air_quality_findings self ?wd"
      by simp
    with False ps assms(2)
    consider "p \<in> set (flood_findings self ?wd)" | "p \<in> set (urban_flooding_findings self ?wd)"
      | "p \<in> set (heat_findings self ?wd)" | "p \<in> set (storm_findings self ?wd)"
      | "p \<in> set (tornado_findings self ?wd)" | "p \<in> set (winter_storm_findings self ?wd)"
      | "p \<in> set (geological_findings self ?wd)" | "p \<in> set (wildfire_findings self ?wd)"
      | "p \<in> set (air_quality_findings self ?wd)"
      by auto
    then show ?thesis
      using clamped_findings_bounded [of p self ?wd] geological_findings_bounded [of p self ?wd]
        winter_storm_findings_bounded [of p self ?wd]
      by cases auto
  qed
qed

text \<open>
  C1. A freezing, windy observation with more than 20 mm of precipitation gets the single
  finding \<^verbatim>\<open>Blizzard\<close> with probability \<open>0.5 + 0.2 + 0.2 + 0.1 = 1\<close>: the winter storm
  block adds its terms without the ceiling of 0.95 that the other blocks apply.
\<close>

theorem blizzard_probability_one:
  "predict_disasters (DisasterPredictor_init [])
     (Dict [(''temperature'', PInt (-10)), (''precipitation'', PInt 25), (''wind_speed'', PInt 40)])
   = Inr [\<lparr>disaster_type = ''Blizzard'', probability = 1, severity = ''Severe'',
           description = ''Significant winter precipitation with freezing temperatures creating hazardous conditions''\<rparr>]"
  by code_simp

section \<open>Properties of the location resolver\<close>

text \<open>The model reproduces the examples of the library's documentation.\<close>

lemma documented_ratio_examples:
  "ratio ''tide'' ''diet'' = 0.25"
  "ratio ''diet'' ''tide'' = 0.5"
  "ratio ''abcd'' ''bcde'' = 0.75"
  "get_close_matches ''appel'' [''ape'', ''apple'', ''peach'', ''puppy''] 0.6 = [''apple'']"
  by code_simp+

lemma get_close_matches_none:
  assumes "\<forall>x \<in> set possibilities. ratio x w < cutoff"
  shows "get_close_matches w possibilities cutoff = []"
proof -
  have "filter (\<lambda>x. real_quick_ratio x w \<ge> cutoff \<and> quick_ratio x w \<ge> cutoff
                      \<and> ratio x w \<ge> cutoff) possibilities = []"
    using assms by (auto simp: filter_empty_conv)
  then show ?thesis by (simp add: get_close_matches_def)
qed

lemma correct_location_name_unmatched:
  assumes "find (names_location (strip (lower s))) LOCATION_ALIASES = None"
    and "\<forall>x \<in> set all_locations. ratio x (strip (lower s)) < 0.7"
  shows "correct_location_name self s = s"
  using assms get_close_matches_none [of all_locations "strip (lower s)" "0.7"]
  by (simp add: correct_location_name_def Let_def)

lemma correct_location_name_bombay: "correct_location_name self ''bombay'' = ''mumbai''"
  by code_simp

lemma correct_location_name_pari: "correct_location_name self ''pari'' = ''paris''"
  by code_simp

lemma unresolvable_no_exact_match:
  "find (names_location (strip (lower ''zzzqqq123''))) LOCATION_ALIASES = None"
  by code_simp

lemma unresolvable_no_close_match:
  "list_all (\<lambda>x. ratio x (strip (lower ''zzzqqq123'')) < 0.7) all_locations"
  by code_simp

text \<open>
  C9. The resolver maps \<^verbatim>\<open>bombay\<close> to \<^verbatim>\<open>mumbai\<close> and \<^verbatim>\<open>pari\<close> to \<^verbatim>\<open>paris\<close> (both are
  listed aliases) and returns \<^verbatim>\<open>zzzqqq123\<close> as it is. In general an input whose lowercased,
  stripped form is no canonical name and no alias, and whose similarity ratio to every
  canonical name and alias is below 0.7, is returned unchanged.
\<close>

theorem correct_location_name_cases:
  "correct_location_name self ''bombay'' = ''mumbai''
   \<and> correct_location_name self ''pari'' = ''paris''
   \<and> correct_location_name self ''zzzqqq123'' = ''zzzqqq123''
   \<and> (find (names_location (strip (lower s))) LOCATION_ALIASES = None
        \<and> (\<forall>x \<in> set all_locations. ratio x (strip (lower s)) < 0.7)
       \<longrightarrow> correct_location_name self s = s)"
proof (intro conjI impI)
  show "correct_location_name self ''bombay'' = ''mumbai''"
    by (rule correct_location_name_bombay)
  show "correct_location_name self ''pari'' = ''paris''"
    by (rule correct_location_name_pari)
  show "correct_location_name self ''zzzqqq123'' = ''zzzqqq123''"
    using unresolvable_no_exact_match unresolvable_no_close_match
    by (intro correct_location_name_unmatched) (simp_all add: list_all_iff)
  show "correct_location_name self s = s"
    if "find (names_location (strip (lower s))) LOCATION_ALIASES = None
        \<and> (\<forall>x \<in> set all_locations. ratio x (strip (lower s)) < 0.7)"
    using that by (intro correct_location_name_unmatched) simp_all
qed

theorem correct_location_name_cases_witness:
  "find (names_location (strip (lower ''qqq''))) LOCATION_ALIASES = None
   \<and> list_all (\<lambda>x. ratio x (strip (lower ''qqq'')) < 0.7) all_locations
   \<and> correct_location_name (DisasterPredictor_init []) ''qqq'' = ''qqq''
   \<and> correct_location_name (DisasterPredictor_init []) ''bombay'' = ''mumbai''"
proof -
  have exact: "find (names_location (strip (lower ''qqq''))) LOCATION_ALIASES = None"
    by code_simp
  have close: "list_all (\<lambda>x. ratio x (strip (lower ''qqq'')) < 0.7) all_locations"
    by code_simp
  then have "\<forall>x \<in> set all_locations. ratio x (strip (lower ''qqq'')) < 0.7"
    by (simp add: list_all_iff)
  with correct_location_name_cases [of "DisasterPredictor_init []" "''qqq''"] exact close
  show ?thesis by blast
qed

section \<open>Properties of the learning step\<close>

lemma append_accuracy_keys:
  "fst ` set (append_accuracy k a abt) = insert k (fst ` set abt)"
  by (induction k a abt rule: append_accuracy.induct) auto

lemma append_accuracy_distinct:
  "distinct (map fst abt) \<Longrightarrow> distinct (map fst (append_accuracy k a abt))"
  by (induction k a abt rule: append_accuracy.induct) (auto simp: append_accuracy_keys)

lemma append_accuracy_lookup:
  "lookup_accuracies (append_accuracy k a abt) c
   = lookup_accuracies abt c @ (if c = k then [a] else [])"
  by (induction k a abt rule: append_accuracy.induct) (auto simp: lookup_accuracies_def)

lemma fold_append_distinct:
  "distinct (map fst abt) \<Longrightarrow>
   distinct (map fst (fold (\<lambda>p. append_accuracy (f p) a) ps abt))"
  by (induction ps arbitrary: abt) (auto simp: append_accuracy_distinct)

lemma fold_append_lookup:
  "lookup_accuracies (fold (\<lambda>p. append_accuracy (f p) a) ps abt) c
   = lookup_accuracies abt c @ map (\<lambda>_. a) (filter (\<lambda>p. f p = c) ps)"
  by (induction ps arbitrary: abt) (auto simp: append_accuracy_lookup)

lemma collect_record_distinct:
  "distinct (map fst abt) \<Longrightarrow> distinct (map fst (collect_record row abt))"
  using fold_append_distinct [of abt category_of]
  by (simp add: collect_record_def category_of_def split: option.split)

lemma collect_record_lookup:
  "lookup_accuracies (collect_record row abt) c = lookup_accuracies abt c @ record_accuracies c row"
  using fold_append_lookup [of category_of _ "predictions row" abt c]
  by (simp add: collect_record_def record_accuracies_def category_of_def split: option.split)

lemma fold_collect_distinct:
  "distinct (map fst abt) \<Longrightarrow> distinct (map fst (fold collect_record rows abt))"
  by (induction rows arbitrary: abt) (auto simp: collect_record_distinct)

lemma fold_collect_lookup:
  "lookup_accuracies (fold collect_record rows abt) c
   = lookup_accuracies abt c @ category_accuracies c rows"
  by (induction rows arbitrary: abt) (auto simp: collect_record_lookup category_accuracies_def)

lemma collect_accuracy_by_type_distinct:
  "distinct (map fst (collect_accuracy_by_type rows))"
  by (simp add: collect_accuracy_by_type_def fold_collect_distinct)

lemma collect_accuracy_by_type_lookup:
  "lookup_accuracies (collect_accuracy_by_type rows) c = category_accuracies c rows"
proof -
  have "lookup_accuracies [] c = []" by (simp add: lookup_accuracies_def)
  then show ?thesis by (simp add: collect_accuracy_by_type_def fold_collect_lookup)
qed

lemma update_coefficient_other:
  "c \<noteq> k \<Longrightarrow> update_coefficient (k, accs) lc c = lc c"
  by (simp add: update_coefficient_def Let_def split: option.split)

lemma update_coefficient_same:
  "update_coefficient (k, accs) lc k
   = (if accs \<noteq> [] then map_option (\<lambda>old. adjusted_coefficient old accs) (lc k) else lc k)"
  by (simp add: update_coefficient_def Let_def adjusted_coefficient_def split: option.split)

lemma fold_update_coefficient:
  "distinct (map fst abt) \<Longrightarrow>
   fold update_coefficient abt lc c
   = (if lookup_accuracies abt c \<noteq> []
      then map_option (\<lambda>old. adjusted_coefficient old (lookup_accuracies abt c)) (lc c)
      else lc c)"
proof (induction abt arbitrary: lc)
  case Nil
  then show ?case by (simp add: lookup_accuracies_def)
next
  case (Cons entry abt)
  obtain k accs where entry: "entry = (k, accs)" by (cases entry)
  from Cons.prems entry have fresh: "k \<notin> fst ` set abt" and dist: "distinct (map fst abt)"
    by auto
  show ?case
  proof (cases "c = k")
    case True
    from fresh True have "map_of abt c = None"
      by (simp add: map_of_eq_None_iff)
    then have "lookup_accuracies abt c = []" by (simp add: lookup_accuracies_def)
    with Cons.IH [OF dist, of "update_coefficient (k, accs) lc"] True entry show ?thesis
      by (simp add: update_coefficient_same lookup_accuracies_def)
  next
    case False
    with Cons.IH [OF dist, of "update_coefficient (k, accs) lc"] entry show ?thesis
      by (simp add: update_coefficient_other lookup_accuracies_def)
  qed
qed

lemma learn_from_history_step:
  "learning_coefficients (learn_from_history self) category =
     (let recent = get_recent_predictions (storage self) 100;
          accs = category_accuracies category recent
      in if 5 \<le> length recent \<and> accs \<noteq> []
         then map_option (\<lambda>c. adjusted_coefficient c accs) (learning_coefficients self category)
         else learning_coefficients self category)"
  using fold_update_coefficient [OF collect_accuracy_by_type_distinct,
      of "get_recent_predictions (storage self) 100" "learning_coefficients self" category]
  by (simp add: learn_from_history_def Let_def collect_accuracy_by_type_lookup)

lemma learn_from_history_storage: "storage (learn_from_history self) = storage self"
  by (simp add: learn_from_history_def Let_def)

text \<open>
  C4 (as stated). Five rows, each with accuracy 1 and one flood finding: the first run
  moves the flood coefficient from 1 to 1.05, a second run over the same rows moves it on
  to 1.1.
\<close>

theorem learn_twice_differs:
  "learning_coefficients
     (learn_from_history (learn_from_history (DisasterPredictor_init (replicate 5 (flood_row (Some 1))))))
     ''flood'' = Some 1.1
   \<and> learning_coefficients
     (learn_from_history (DisasterPredictor_init (replicate 5 (flood_row (Some 1)))))
     ''flood'' = Some 1.05
   \<and> learning_coefficients
     (learn_from_history (learn_from_history (DisasterPredictor_init (replicate 5 (flood_row (Some 1))))))
     ''flood''
     \<noteq> learning_coefficients
         (learn_from_history (DisasterPredictor_init (replicate 5 (flood_row (Some 1)))))
         ''flood''"
  by code_simp

text \<open>
  C4 (amended). The learning step is a function of the current coefficients and the rows
  read: with at least five rows, the coefficient \<open>c\<close> of each category that has collected
  accuracies becomes \<open>max 0.5 (min 1.5 (c + (mean - 0.5) * 0.1))\<close>; every other coefficient
  and the table stay as they are. A second run over the same rows therefore applies the
  same adjustment to the already adjusted coefficient.
\<close>

theorem learn_from_history_accumulates:
  "learning_coefficients (learn_from_history self) category =
     (let recent = get_recent_predictions (storage self) 100;
          accs = category_accuracies category recent
      in if 5 \<le> length recent \<and> accs \<noteq> []
         then map_option (\<lambda>c. adjusted_coefficient c accs) (learning_coefficients self category)
         else learning_coefficients self category)
   \<and> storage (learn_from_history self) = storage self
   \<and> learning_coefficients (learn_from_history (learn_from_history self)) category =
     (let recent = get_recent_predictions (storage self) 100;
          accs = category_accuracies category recent
      in if 5 \<le> length recent \<and> accs \<noteq> []
         then map_option (\<lambda>c. adjusted_coefficient (adjusted_coefficient c accs) accs)
                (learning_coefficients self category)
         else learning_coefficients self category)"
proof (intro conjI)
  show "learning_coefficients (learn_from_history self) category =
     (let recent = get_recent_predictions (storage self) 100;
          accs = category_accuracies category recent
      in if 5 \<le> length recent \<and> accs \<noteq> []
         then map_option (\<lambda>c. adjusted_coefficient c accs) (learning_coefficients self category)
         else learning_coefficients self category)"
    by (rule learn_from_history_step)
  show "storage (learn_from_history self) = storage self"
    by (rule learn_from_history_storage)
  show "learning_coefficients (learn_from_history (learn_from_history self)) category =
     (let recent = get_recent_predictions (storage self) 100;
          accs = category_accuracies category recent
      in if 5 \<le> length recent \<and> accs \<noteq> []
         then map_option (\<lambda>c. adjusted_coefficient (adjusted_coefficient c accs) accs)
                (learning_coefficients self category)
         else learning_coefficients self category)"
    using learn_from_history_step [of "learn_from_history self" category]
      learn_from_history_step [of self category]
    by (simp add: learn_from_history_storage Let_def option.map_comp comp_def)
qed

theorem learn_from_history_accumulates_witness:
  "learning_coefficients
     (learn_from_history (learn_from_history (DisasterPredictor_init (replicate 6 (flood_row (Some 0.9))))))
     ''flood'' = Some 1.08
   \<and> learning_coefficients
     (learn_from_history (learn_from_history (DisasterPredictor_init (replicate 6 (flood_row (Some 0.9))))))
     ''storm'' = Some 1"
proof -
  let ?p = "DisasterPredictor_init (replicate 6 (flood_row (Some 0.9)))"
  have flood: "(let recent = get_recent_predictions (storage ?p) 100;
          accs = category_accuracies ''flood'' recent
      in if 5 \<le> length recent \<and> accs \<noteq> []
         then map_option (\<lambda>c. adjusted_coefficient (adjusted_coefficient c accs) accs)
                (learning_coefficients ?p ''flood'')
         else learning_coefficients ?p ''flood'') = Some 1.08"
    by code_simp
  have storm: "(let recent = get_recent_predictions (storage ?p) 100;
          accs = category_accuracies ''storm'' recent
      in if 5 \<le> length recent \<and> accs \<noteq> []
         then map_option (\<lambda>c. adjusted_coefficient (adjusted_coefficient c accs) accs)
                (learning_coefficients ?p ''storm'')
         else learning_coefficients ?p ''storm'') = Some 1"
    by code_simp
  from learn_from_history_accumulates [of ?p "''flood''"] flood
  have "learning_coefficients (learn_from_history (learn_from_history ?p)) ''flood'' = Some 1.08"
    by (simp only:)
  moreover from learn_from_history_accumulates [of ?p "''storm''"] storm
  have "learning_coefficients (learn_from_history (learn_from_history ?p)) ''storm'' = Some 1"
    by (simp only:)
  ultimately show ?thesis by simp
qed




end
